theory Spec2Isabelle
  imports Complex_Main
begin

section \<open>Data model\<close>

text \<open>
  Node identifiers are \<^verbatim>\<open>string | number\<close> in the source. The strict equality
  \<^verbatim>\<open>===\<close> never identifies a number with a string, which is the equality of this
  datatype.
\<close>

datatype node_id = NumId int | StrId string

datatype node_shape = Rect | Circle

datatype path_style = Straight | Curved

datatype enrichment_state = Idle | Loading | Success | Error

record synthesis_info =
  synthesis :: string
  reasoning :: string

record citation =
  cite_sourceId :: string
  citedText :: string
  sourceTitle :: string
  cite_source :: string
  cite_url :: string

text \<open>
  Optional members of the TypeScript interfaces are \<open>option\<close> fields: \<open>None\<close> is an
  absent (or \<^verbatim>\<open>undefined\<close>) member. Coordinates and sizes are JavaScript numbers;
  the properties below do not depend on their values. Members keep their names, except
  where a name is taken in Isabelle or by another record: \<^verbatim>\<open>id\<close> is \<open>nid\<close>,
  \<^verbatim>\<open>x\<close> and \<^verbatim>\<open>y\<close> are \<open>pos_x\<close> and \<open>pos_y\<close>, \<^verbatim>\<open>notes\<close> is \<open>node_notes\<close>, and
  the members of citations, constructs, feeds, activities and projects carry a prefix.
\<close>

record map_node =
  nid :: node_id
  name :: string
  pos_x :: real
  pos_y :: real
  shape :: node_shape
  width :: real
  height :: real
  textColor :: "string option"
  node_notes :: "string option"
  isAiGenerated :: "bool option"
  isHistorical :: "bool option"
  isUserDefined :: "bool option"
  isDialectic :: "bool option"
  isCitation :: "bool option"
  isCounterExample :: "bool option"
  synthesisInfo :: "synthesis_info option"
  citationData :: "citation option"

text \<open>
  A stored justification is either the legacy plain string or the structured object
  \<^verbatim>\<open>{ text, citations }\<close>.
\<close>

datatype justification_value =
  JString string
  | JObject string "citation list"

text \<open>
  \<open>relationshipType\<close> is the singular legacy member that the session migration
  replaces by \<open>relationshipTypes\<close>.
\<close>

record map_link =
  source :: node_id
  target :: node_id
  pathStyle :: path_style
  relationshipTypes :: "string list option"
  relationshipType :: "string option"
  justification :: "justification_value option"
  justificationState :: "enrichment_state option"
  implications :: "string list option"
  implicationsState :: "enrichment_state option"
  formalRepresentation :: "string option"
  formalizationState :: "enrichment_state option"
  link_isHistorical :: "bool option"
  isCounterExampleLink :: "bool option"

record logical_construct =
  construct_id :: string
  premiseNodeIds :: "node_id list"
  conclusionNodeId :: node_id
  operator :: string
  propositions :: "(string \<times> string) list"
  critique :: string
  construct_formalRepresentation :: string
  suggestedSystem :: string
  rationale :: string

text \<open>
  The layout of one project's map. The source reads \<^verbatim>\<open>prev.logicalConstructs || []\<close>
  wherever it uses the constructs, so that member may be absent; \<open>nodes\<close> and \<open>links\<close>
  are written by every constructor and updater of a layout.
\<close>

record layout =
  nodes :: "map_node list"
  links :: "map_link list"
  logicalConstructs :: "logical_construct list option"

definition constructs_or_empty :: "layout \<Rightarrow> logical_construct list" where
  "constructs_or_empty g = (case logicalConstructs g of None \<Rightarrow> [] | Some cs \<Rightarrow> cs)"

text \<open>
  \<^verbatim>\<open>nodeMap = new Map(nodes.map(n => [n.id, n]))\<close>: when two nodes share an id the
  later entry overwrites the earlier one, so \<open>get\<close> returns the last node with the id.
\<close>

definition nodeMap_get :: "map_node list \<Rightarrow> node_id \<Rightarrow> map_node option" where
  "nodeMap_get ns i = find (\<lambda>n. nid n = i) (rev ns)"

text \<open>The test \<^verbatim>\<open>l.source === link.source && l.target === link.target\<close>.\<close>

definition same_key :: "map_link \<Rightarrow> node_id \<Rightarrow> node_id \<Rightarrow> bool" where
  "same_key l s t \<longleftrightarrow> source l = s \<and> target l = t"

section \<open>Layout updaters of useMapUI\<close>

text \<open>
  Each definition of this section is the function that the source passes to
  \<^verbatim>\<open>setLayout\<close>: one state transition from the previous layout to the next.
\<close>

definition deleteNode :: "node_id \<Rightarrow> layout \<Rightarrow> layout" where
  "deleteNode nodeId prev =
     \<lparr> nodes = filter (\<lambda>n. nid n \<noteq> nodeId) (nodes prev),
       links = filter (\<lambda>l. source l \<noteq> nodeId \<and> target l \<noteq> nodeId) (links prev),
       logicalConstructs =
         Some (filter (\<lambda>c. conclusionNodeId c \<noteq> nodeId \<and> nodeId \<notin> set (premiseNodeIds c))
                 (constructs_or_empty prev)) \<rparr>"


definition updateNodeShape :: "node_id \<Rightarrow> node_shape \<Rightarrow> layout \<Rightarrow> layout" where
  "updateNodeShape nodeId sh prev =
     prev\<lparr> nodes := map (\<lambda>n. if nid n = nodeId then n\<lparr> shape := sh \<rparr> else n) (nodes prev) \<rparr>"

definition handleTextColorChange :: "node_id \<Rightarrow> string \<Rightarrow> layout \<Rightarrow> layout" where
  "handleTextColorChange nodeId color prev =
     prev\<lparr> nodes := map (\<lambda>n. if nid n = nodeId then n\<lparr> textColor := Some color \<rparr> else n)
                      (nodes prev) \<rparr>"

definition handleNodeNameChange :: "node_id \<Rightarrow> string \<Rightarrow> layout \<Rightarrow> layout" where
  "handleNodeNameChange nodeId newName prev =
     prev\<lparr> nodes := map (\<lambda>n. if nid n = nodeId then n\<lparr> name := newName \<rparr> else n) (nodes prev) \<rparr>"

definition handleSaveNote :: "node_id \<Rightarrow> string \<Rightarrow> layout \<Rightarrow> layout" where
  "handleSaveNote nodeId content prev =
     prev\<lparr> nodes := map (\<lambda>n. if nid n = nodeId then n\<lparr> node_notes := Some content \<rparr> else n)
                      (nodes prev) \<rparr>"

definition updateLinkPathStyle :: "map_link \<Rightarrow> path_style \<Rightarrow> layout \<Rightarrow> layout" where
  "updateLinkPathStyle link ps prev =
     prev\<lparr> links := map (\<lambda>l. if same_key l (source link) (target link)
                                then l\<lparr> pathStyle := ps \<rparr> else l) (links prev) \<rparr>"

definition updateLinkRelationshipTypes :: "map_link \<Rightarrow> string list \<Rightarrow> layout \<Rightarrow> layout" where
  "updateLinkRelationshipTypes linkToUpdate newTypes prev =
     prev\<lparr> links := map (\<lambda>l. if same_key l (source linkToUpdate) (target linkToUpdate)
                                then l\<lparr> relationshipTypes :=
                                         Some (if length newTypes > 0 then newTypes
                                               else [''Unclassified'']) \<rparr>
                                else l) (links prev) \<rparr>"

definition deleteLink :: "map_link \<Rightarrow> layout \<Rightarrow> layout" where
  "deleteLink link prev =
     prev\<lparr> links := filter (\<lambda>l. \<not> same_key l (source link) (target link)) (links prev) \<rparr>"

text \<open>
  \<open>handleConceptChangeSelect\<close>: the node \<open>oldId\<close> (the id held in
  \<^verbatim>\<open>changingNodeState\<close>) takes the id and name of the chosen catalog concept. A
  link is rewritten at its source, or else at its target.
\<close>

definition handleConceptChangeSelect :: "node_id \<Rightarrow> node_id \<Rightarrow> string \<Rightarrow> layout \<Rightarrow> layout" where
  "handleConceptChangeSelect oldId newId newName prev =
     prev\<lparr> nodes := map (\<lambda>n. if nid n = oldId
                                then n\<lparr> nid := newId, name := newName,
                                        isAiGenerated := Some False, isHistorical := Some False,
                                        isUserDefined := Some False, synthesisInfo := None,
                                        isDialectic := Some False, isCitation := Some False \<rparr>
                                else n) (nodes prev),
            links := map (\<lambda>l. if source l = oldId then l\<lparr> source := newId \<rparr>
                                else if target l = oldId then l\<lparr> target := newId \<rparr>
                                else l) (links prev) \<rparr>"

definition handleCreateLogicalConstruct :: "logical_construct \<Rightarrow> layout \<Rightarrow> layout" where
  "handleCreateLogicalConstruct newConstruct prev =
     prev\<lparr> logicalConstructs := Some (constructs_or_empty prev @ [newConstruct]) \<rparr>"

text \<open>
  An object literal that gives a link only its four mandatory members, as the source
  writes for pinned citations and for the links added by the AI workflows.
\<close>

definition link_literal :: "node_id \<Rightarrow> node_id \<Rightarrow> path_style \<Rightarrow> string list \<Rightarrow> map_link" where
  "link_literal s t ps types =
     \<lparr> source = s, target = t, pathStyle = ps, relationshipTypes = Some types,
       relationshipType = None, justification = None, justificationState = None,
       implications = None, implicationsState = None, formalRepresentation = None,
       formalizationState = None, link_isHistorical = None, isCounterExampleLink = None \<rparr>"

text \<open>
  A node literal with the seven mandatory members; every optional member is absent.
\<close>

definition node_literal ::
  "node_id \<Rightarrow> string \<Rightarrow> real \<Rightarrow> real \<Rightarrow> node_shape \<Rightarrow> real \<Rightarrow> real \<Rightarrow> map_node" where
  "node_literal i nm px py sh w h =
     \<lparr> nid = i, name = nm, pos_x = px, pos_y = py, shape = sh, width = w, height = h,
       textColor = None, node_notes = None, isAiGenerated = None, isHistorical = None,
       isUserDefined = None, isDialectic = None, isCitation = None, isCounterExample = None,
       synthesisInfo = None, citationData = None \<rparr>"

text \<open>
  \<open>handlePinCitation\<close>. The midpoint of the link is computed by the helper
  \<^verbatim>\<open>getMidpoint\<close> of \<^verbatim>\<open>utils/calculations\<close> and is an argument here; \<open>now\<close> is
  the decimal text of \<^verbatim>\<open>Date.now()\<close>.
\<close>

definition handlePinCitation ::
  "map_link \<Rightarrow> citation \<Rightarrow> real \<times> real \<Rightarrow> string \<Rightarrow> layout \<Rightarrow> layout" where
  "handlePinCitation link cit linkMidpoint now prev =
     (let newId = StrId (''citation_'' @ now);
          newNode = (node_literal newId
                       (cite_source cit @ '': '' @ take 20 (sourceTitle cit) @ ''...'')
                       (fst linkMidpoint + 40) (snd linkMidpoint - 40) Rect 160 40)
                    \<lparr> isCitation := Some True, citationData := Some cit \<rparr>;
          newLink = link_literal (source link) newId Curved [''Cited'']
      in prev\<lparr> nodes := nodes prev @ [newNode], links := links prev @ [newLink] \<rparr>)"

section \<open>The map builder: layout, activity log and linking state\<close>

text \<open>
  \<open>createLink\<close> and \<open>handleNodeClick\<close> do more than update the layout: they call
  \<^verbatim>\<open>logActivity\<close> and drive the linking gesture. Their state is the layout that
  \<^verbatim>\<open>setLayout\<close> updates, the entries handed to \<^verbatim>\<open>logActivity\<close> (newest first,
  as the session manager stores them in the project diary), the node a link is being
  drawn from, the open relationship menu and the selected node. Tooltips and the other
  menus are display state and are left out. The node map and the link list that the
  handlers read are those of the layout of the state they run in.
\<close>

datatype payload_value =
  PId node_id
  | PString string
  | PStrings "string list"

type_synonym activity = "string \<times> (string \<times> payload_value) list"

record relationship_menu =
  menu_sourceId :: node_id
  menu_targetId :: node_id
  menu_x :: real
  menu_y :: real

record map_builder =
  layout_of :: layout
  diary :: "activity list"
  linkingNode :: "node_id option"
  relationshipMenu :: "relationship_menu option"
  selectedNodeId :: "node_id option"

definition logActivity :: "string \<Rightarrow> (string \<times> payload_value) list \<Rightarrow> map_builder \<Rightarrow> map_builder" where
  "logActivity ty pl b = b\<lparr> diary := (ty, pl) # diary b \<rparr>"

definition setLayout :: "(layout \<Rightarrow> layout) \<Rightarrow> map_builder \<Rightarrow> map_builder" where
  "setLayout updater b = b\<lparr> layout_of := updater (layout_of b) \<rparr>"

definition createLink :: "node_id \<Rightarrow> node_id \<Rightarrow> string list \<Rightarrow> map_builder \<Rightarrow> map_builder" where
  "createLink sourceId targetId relTypes b =
     (case (nodeMap_get (nodes (layout_of b)) sourceId,
            nodeMap_get (nodes (layout_of b)) targetId) of
        (Some sourceNode, Some targetNode) \<Rightarrow>
          (let b1 = logActivity ''CREATE_MAP_LINK''
                      [(''sourceId'', PId sourceId), (''targetId'', PId targetId),
                       (''sourceName'', PString (name sourceNode)),
                       (''targetName'', PString (name targetNode)),
                       (''relationships'', PStrings relTypes)] b;
               b2 = setLayout (\<lambda>prev. prev\<lparr> links := links prev @
                       [\<lparr> source = sourceId, target = targetId, pathStyle = Straight,
                          relationshipTypes =
                            Some (if length relTypes > 0 then relTypes else [''Unclassified'']),
                          relationshipType = None, justification = None,
                          justificationState = Some Idle,
                          implications = None, implicationsState = Some Idle,
                          formalRepresentation = None, formalizationState = Some Idle,
                          link_isHistorical = None, isCounterExampleLink = None \<rparr>] \<rparr>) b1
           in b2\<lparr> relationshipMenu := None \<rparr>)
      | _ \<Rightarrow> b\<lparr> relationshipMenu := None \<rparr>)"

section \<open>Handlers of useMapInteraction\<close>

text \<open>
  \<open>handleNodeClick\<close>, the call site that opens the relationship menu from which
  \<open>createLink\<close> is invoked. \<open>transform\<close> is the current zoom transform applied to the
  midpoint of the two nodes.
\<close>

definition handleNodeClick ::
  "(real \<times> real \<Rightarrow> real \<times> real) \<Rightarrow> map_node \<Rightarrow> map_builder \<Rightarrow> map_builder" where
  "handleNodeClick transform node b =
     (case linkingNode b of
        Some linking \<Rightarrow>
          (if linking \<noteq> nid node then
             (case find (\<lambda>l. (source l = linking \<and> target l = nid node)
                            \<or> (source l = nid node \<and> target l = linking)) (links (layout_of b)) of
                None \<Rightarrow>
                  (case nodeMap_get (nodes (layout_of b)) linking of
                     Some sourceNode \<Rightarrow>
                       (let midPoint = ((pos_x sourceNode + pos_x node) / 2,
                                        (pos_y sourceNode + pos_y node) / 2);
                            screen = transform midPoint
                        in b\<lparr> relationshipMenu :=
                                 Some \<lparr> menu_sourceId = linking, menu_targetId = nid node,
                                        menu_x = fst screen, menu_y = snd screen \<rparr>,
                               linkingNode := None \<rparr>)
                   | None \<Rightarrow> b\<lparr> linkingNode := None \<rparr>)
              | Some existingLink \<Rightarrow> b\<lparr> linkingNode := None \<rparr>)
           else b\<lparr> linkingNode := None \<rparr>)
      | None \<Rightarrow> b\<lparr> selectedNodeId := Some (nid node) \<rparr>)"

definition updateNodePosition :: "node_id \<Rightarrow> real \<Rightarrow> real \<Rightarrow> layout \<Rightarrow> layout" where
  "updateNodePosition nodeId px py prev =
     prev\<lparr> nodes := map (\<lambda>n. if nid n = nodeId then n\<lparr> pos_x := px, pos_y := py \<rparr> else n)
                      (nodes prev) \<rparr>"

definition handleBackgroundDoubleClick :: "string \<Rightarrow> real \<Rightarrow> real \<Rightarrow> layout \<Rightarrow> layout" where
  "handleBackgroundDoubleClick now px py prev =
     prev\<lparr> nodes := nodes prev @
        [(node_literal (StrId (''user_'' @ now)) ''New Concept'' px py Rect 150 40)
           \<lparr> isUserDefined := Some True \<rparr>] \<rparr>"

definition handleResize :: "node_id \<Rightarrow> real \<Rightarrow> real \<Rightarrow> layout \<Rightarrow> layout" where
  "handleResize nodeId newWidth newHeight prev =
     prev\<lparr> nodes := map (\<lambda>n. if nid n = nodeId
                                then n\<lparr> width := max 40 newWidth, height := max 40 newHeight \<rparr>
                                else n) (nodes prev) \<rparr>"

text \<open>
  \<open>handleDrop\<close> returns early when a node with the dropped id is on the map.
\<close>

definition handleDrop :: "int \<Rightarrow> string \<Rightarrow> real \<Rightarrow> real \<Rightarrow> layout \<Rightarrow> layout" where
  "handleDrop droppedId droppedName px py prev =
     (case find (\<lambda>n. nid n = NumId droppedId) (nodes prev) of
        Some n \<Rightarrow> prev
      | None \<Rightarrow> prev\<lparr> nodes := nodes prev @
                   [node_literal (NumId droppedId) droppedName px py Rect 150 40] \<rparr>)"

section \<open>Enrichment handlers of useMapAI\<close>

text \<open>
  An asynchronous handler is split at its \<^verbatim>\<open>await\<close>. The first part returns the
  layout after its synchronous \<^verbatim>\<open>setLayout\<close> call together with the request handed
  to the AI collaborator, \<open>None\<close> when the handler ends without dispatching one. A
  request is identified by what its prompt is built from: the enriched field, the names
  of the two nodes and the relationship types of the link. Reading
  \<^verbatim>\<open>link.relationshipTypes.join\<close> on a link without that member throws, which also
  ends the handler without a request.
\<close>

datatype enrichment_field = Justification | Implications | Formalization

datatype ai_request =
  LinkRequest enrichment_field string string "string list"
  | CombinedRequest "string list" string

datatype js_error = TypeError

definition generateJustification :: "map_link \<Rightarrow> layout \<Rightarrow> layout \<times> ai_request option" where
  "generateJustification link g =
     (case (nodeMap_get (nodes g) (source link), nodeMap_get (nodes g) (target link)) of
        (Some sourceNode, Some targetNode) \<Rightarrow>
          (let g1 = g\<lparr> links := map (\<lambda>l. if same_key l (source link) (target link)
                                            then l\<lparr> justificationState := Some Loading \<rparr>
                                            else l) (links g) \<rparr>
           in (g1, case relationshipTypes link of
                     None \<Rightarrow> None
                   | Some types \<Rightarrow>
                       Some (LinkRequest Justification (name sourceNode) (name targetNode) types)))
      | _ \<Rightarrow> (g, None))"

definition generateJustification_success ::
  "map_link \<Rightarrow> string \<Rightarrow> citation list \<Rightarrow> layout \<Rightarrow> layout" where
  "generateJustification_success link jtext fullCitations prev =
     prev\<lparr> links := map (\<lambda>l. if same_key l (source link) (target link)
                                then l\<lparr> justificationState := Some Success,
                                        justification := Some (JObject jtext fullCitations) \<rparr>
                                else l) (links prev) \<rparr>"

definition generateJustification_error :: "map_link \<Rightarrow> layout \<Rightarrow> layout" where
  "generateJustification_error link prev =
     prev\<lparr> links := map (\<lambda>l. if same_key l (source link) (target link)
                                then l\<lparr> justificationState := Some Error,
                                        justification :=
                                          Some (JObject ''Failed to generate justification.'' []) \<rparr>
                                else l) (links prev) \<rparr>"

definition handleExploreImplications :: "map_link \<Rightarrow> layout \<Rightarrow> layout \<times> ai_request option" where
  "handleExploreImplications link g =
     (case (nodeMap_get (nodes g) (source link), nodeMap_get (nodes g) (target link)) of
        (Some sourceNode, Some targetNode) \<Rightarrow>
          (if implicationsState link = Some Loading then (g, None)
           else
             (let g1 = g\<lparr> links := map (\<lambda>l. if same_key l (source link) (target link)
                                               then l\<lparr> implicationsState := Some Loading \<rparr>
                                               else l) (links g) \<rparr>
              in (g1, case relationshipTypes link of
                        None \<Rightarrow> None
                      | Some types \<Rightarrow>
                          Some (LinkRequest Implications (name sourceNode) (name targetNode) types))))
      | _ \<Rightarrow> (g, None))"

definition handleExploreImplications_success :: "map_link \<Rightarrow> string list \<Rightarrow> layout \<Rightarrow> layout" where
  "handleExploreImplications_success link questions prev =
     prev\<lparr> links := map (\<lambda>l. if same_key l (source link) (target link)
                                then l\<lparr> implicationsState := Some Success,
                                        implications := Some questions \<rparr>
                                else l) (links prev) \<rparr>"

definition handleExploreImplications_error :: "map_link \<Rightarrow> layout \<Rightarrow> layout" where
  "handleExploreImplications_error link prev =
     prev\<lparr> links := map (\<lambda>l. if same_key l (source link) (target link)
                                then l\<lparr> implicationsState := Some Error,
                                        implications :=
                                          Some [''The AI could not generate implications for this link.''] \<rparr>
                                else l) (links prev) \<rparr>"

text \<open>
  The logical workbench formalizes either one link or a combined argument of premise
  nodes and a conclusion node; only the first touches the layout.
\<close>

datatype workbench_state =
  LinkWorkbench map_link
  | CombinedWorkbench "map_node list" map_node

record formalization_choice =
  choice_formalRepresentation :: string
  choice_suggestedSystem :: string
  choice_rationale :: string

definition handleFormalizeArgument :: "workbench_state \<Rightarrow> layout \<Rightarrow> layout \<times> ai_request option" where
  "handleFormalizeArgument workbenchState g =
     (case workbenchState of
        LinkWorkbench link \<Rightarrow>
          (case (nodeMap_get (nodes g) (source link), nodeMap_get (nodes g) (target link)) of
             (Some sourceNode, Some targetNode) \<Rightarrow>
               (case relationshipTypes link of
                  None \<Rightarrow> (g, None)
                | Some types \<Rightarrow>
                    (g\<lparr> links := map (\<lambda>l. if same_key l (source link) (target link)
                                             then l\<lparr> formalizationState := Some Loading \<rparr>
                                             else l) (links g) \<rparr>,
                     Some (LinkRequest Formalization (name sourceNode) (name targetNode) types)))
           | _ \<Rightarrow> (g, None))
      | CombinedWorkbench premises conclusion \<Rightarrow>
          (g, Some (CombinedRequest (map name premises) (name conclusion))))"

text \<open>
  On success the first formalization choice is stored. The callback of the \<^verbatim>\<open>map\<close>
  reads \<^verbatim>\<open>result.choices[0].formalRepresentation\<close> for a link that matches the key,
  which throws when the response has no choice; \<open>None\<close> is that exception, and
  \<open>those\<close> fails the whole \<^verbatim>\<open>map\<close> with it.
\<close>

definition handleFormalizeArgument_success ::
  "workbench_state \<Rightarrow> formalization_choice list \<Rightarrow> layout \<Rightarrow> js_error + layout" where
  "handleFormalizeArgument_success workbenchState choices prev =
     (case workbenchState of
        LinkWorkbench link \<Rightarrow>
          (case those (map (\<lambda>l. if same_key l (source link) (target link)
                                  then (case choices of
                                          [] \<Rightarrow> None
                                        | c # cs \<Rightarrow>
                                            Some (l\<lparr> formalizationState := Some Success,
                                                     formalRepresentation :=
                                                       Some (choice_formalRepresentation c) \<rparr>))
                                  else Some l) (links prev)) of
             None \<Rightarrow> Inl TypeError
           | Some newLinks \<Rightarrow> Inr (prev\<lparr> links := newLinks \<rparr>))
      | CombinedWorkbench premises conclusion \<Rightarrow> Inr prev)"

definition handleFormalizeArgument_error :: "workbench_state \<Rightarrow> layout \<Rightarrow> layout" where
  "handleFormalizeArgument_error workbenchState prev =
     (case workbenchState of
        LinkWorkbench link \<Rightarrow>
          prev\<lparr> links := map (\<lambda>l. if same_key l (source link) (target link)
                                     then l\<lparr> formalizationState := Some Error \<rparr>
                                     else l) (links prev) \<rparr>
      | CombinedWorkbench premises conclusion \<Rightarrow> prev)"

section \<open>Insertions by the AI workflows\<close>

text \<open>
  The workflows below add nodes and links on success. The new nodes carry positions
  that the source computes from centroids, angles and midpoints; they are arguments
  here, and the links are built from their ids as the source builds them.
\<close>

definition handleSynthesizeRegion_success :: "map_node \<Rightarrow> map_node list \<Rightarrow> layout \<Rightarrow> layout" where
  "handleSynthesizeRegion_success newNode selectedNodes prev =
     prev\<lparr> nodes := nodes prev @ [newNode],
            links := links prev @
              map (\<lambda>n. link_literal (nid newNode) (nid n) Curved [''Synthesizes'']) selectedNodes \<rparr>"

text \<open>
  Genealogy: each new historical node comes with the flag that tells a precursor
  (linked towards the analysed node) from a successor (linked from it).
\<close>

definition handleAnalyzeGenealogy_success ::
  "map_node \<Rightarrow> (map_node \<times> bool) list \<Rightarrow> layout \<Rightarrow> layout" where
  "handleAnalyzeGenealogy_success sourceNode entries prev =
     prev\<lparr> nodes := nodes prev @ map fst entries,
            links := links prev @
              map (\<lambda>(newNode, isPrecursor).
                     (link_literal (if isPrecursor then nid newNode else nid sourceNode)
                                   (if isPrecursor then nid sourceNode else nid newNode)
                                   Curved [''Contextual''])
                     \<lparr> link_isHistorical := Some True \<rparr>) entries \<rparr>"

datatype dialectic_type = Counter | Proponent | Opponent

definition handleAddDialecticNode ::
  "map_node \<Rightarrow> dialectic_type \<Rightarrow> map_link \<Rightarrow> layout \<Rightarrow> layout" where
  "handleAddDialecticNode newNode ty dialecticAnalysisLink g =
     (case (nodeMap_get (nodes g) (source dialecticAnalysisLink),
            nodeMap_get (nodes g) (target dialecticAnalysisLink)) of
        (Some sourceNode, Some targetNode) \<Rightarrow>
          (let newLink =
                 (if ty = Counter
                  then link_literal (nid newNode) (target dialecticAnalysisLink) Curved
                         [''Oppositional'']
                  else (let isProponent = (ty = Proponent);
                            anchorNode = (if isProponent then sourceNode else targetNode)
                        in link_literal (nid newNode) (nid anchorNode) Curved
                             [if isProponent then ''Supportive'' else ''Oppositional'']))
           in g\<lparr> nodes := nodes g @ [newNode], links := links g @ [newLink] \<rparr>)
      | _ \<Rightarrow> g)"

text \<open>
  \<open>handleAddCounterExampleNode\<close> needs an open definition analysis, whose link is
  the first argument.
\<close>

definition handleAddCounterExampleNode ::
  "map_link option \<Rightarrow> map_node \<Rightarrow> layout \<Rightarrow> layout" where
  "handleAddCounterExampleNode definitionAnalysisLink newNode g =
     (case definitionAnalysisLink of
        None \<Rightarrow> g
      | Some link \<Rightarrow>
          (case nodeMap_get (nodes g) (target link) of
             None \<Rightarrow> g
           | Some targetNode \<Rightarrow>
               g\<lparr> nodes := nodes g @ [newNode],
                    links := links g @
                      [(link_literal (nid newNode) (nid targetNode) Curved [''Refutes''])
                         \<lparr> isCounterExampleLink := Some True \<rparr>] \<rparr>))"

section \<open>Completions of link enrichments\<close>

text \<open>
  The six merges that a resolved enrichment of a link applies, by outcome. Each one
  runs on the layout that is current when the response arrives.
\<close>

datatype completion =
  JustificationSuccess string "citation list"
  | JustificationError
  | ImplicationsSuccess "string list"
  | ImplicationsError
  | FormalizationSuccess "formalization_choice list"
  | FormalizationError

fun apply_completion :: "map_link \<Rightarrow> completion \<Rightarrow> layout \<Rightarrow> js_error + layout" where
  "apply_completion link (JustificationSuccess jtext cs) prev =
     Inr (generateJustification_success link jtext cs prev)"
| "apply_completion link JustificationError prev = Inr (generateJustification_error link prev)"
| "apply_completion link (ImplicationsSuccess questions) prev =
     Inr (handleExploreImplications_success link questions prev)"
| "apply_completion link ImplicationsError prev = Inr (handleExploreImplications_error link prev)"
| "apply_completion link (FormalizationSuccess choices) prev =
     handleFormalizeArgument_success (LinkWorkbench link) choices prev"
| "apply_completion link FormalizationError prev =
     Inr (handleFormalizeArgument_error (LinkWorkbench link) prev)"

section \<open>The mutation operations as one step function\<close>

text \<open>
  One constructor for every \<^verbatim>\<open>setLayout\<close> call of useMapUI, useMapInteraction
  and useMapAI, and \<open>StartLinking\<close> for the context-menu entry that sets the linking
  node. An updater
  that throws installs no new layout.
\<close>

datatype graph_op =
  CreateLink node_id node_id "string list"
  | NodeClick "real \<times> real \<Rightarrow> real \<times> real" map_node
  | StartLinking node_id
  | DeleteNode node_id
  | DeleteLink map_link
  | UpdateLinkRelationshipTypes map_link "string list"
  | UpdateLinkPathStyle map_link path_style
  | UpdateNodeShape node_id node_shape
  | TextColorChange node_id string
  | NodeNameChange node_id string
  | SaveNote node_id string
  | ConceptChangeSelect node_id node_id string
  | CreateLogicalConstruct logical_construct
  | PinCitation map_link citation "real \<times> real" string
  | UpdateNodePosition node_id real real
  | BackgroundDoubleClick string real real
  | Resize node_id real real
  | Drop int string real real
  | JustificationStart map_link
  | ImplicationsStart map_link
  | FormalizeStart workbench_state
  | Complete map_link completion
  | SynthesizeRegionSuccess map_node "map_node list"
  | AnalyzeGenealogySuccess map_node "(map_node \<times> bool) list"
  | AddDialecticNode map_node dialectic_type map_link
  | AddCounterExampleNode "map_link option" map_node

fun apply_op :: "graph_op \<Rightarrow> map_builder \<Rightarrow> map_builder" where
  "apply_op (CreateLink s t types) b = createLink s t types b"
| "apply_op (NodeClick tr n) b = handleNodeClick tr n b"
| "apply_op (StartLinking i) b = b\<lparr> linkingNode := Some i \<rparr>"
| "apply_op (DeleteNode i) b = setLayout (deleteNode i) b"
| "apply_op (DeleteLink l) b = setLayout (deleteLink l) b"
| "apply_op (UpdateLinkRelationshipTypes l types) b = setLayout (updateLinkRelationshipTypes l types) b"
| "apply_op (UpdateLinkPathStyle l ps) b = setLayout (updateLinkPathStyle l ps) b"
| "apply_op (UpdateNodeShape i sh) b = setLayout (updateNodeShape i sh) b"
| "apply_op (TextColorChange i c) b = setLayout (handleTextColorChange i c) b"
| "apply_op (NodeNameChange i nm) b = setLayout (handleNodeNameChange i nm) b"
| "apply_op (SaveNote i c) b = setLayout (handleSaveNote i c) b"
| "apply_op (ConceptChangeSelect i j nm) b = setLayout (handleConceptChangeSelect i j nm) b"
| "apply_op (CreateLogicalConstruct c) b = setLayout (handleCreateLogicalConstruct c) b"
| "apply_op (PinCitation l c m now) b = setLayout (handlePinCitation l c m now) b"
| "apply_op (UpdateNodePosition i px py) b = setLayout (updateNodePosition i px py) b"
| "apply_op (BackgroundDoubleClick now px py) b = setLayout (handleBackgroundDoubleClick now px py) b"
| "apply_op (Resize i w h) b = setLayout (handleResize i w h) b"
| "apply_op (Drop i nm px py) b = setLayout (handleDrop i nm px py) b"
| "apply_op (JustificationStart l) b = setLayout (\<lambda>g. fst (generateJustification l g)) b"
| "apply_op (ImplicationsStart l) b = setLayout (\<lambda>g. fst (handleExploreImplications l g)) b"
| "apply_op (FormalizeStart w) b = setLayout (\<lambda>g. fst (handleFormalizeArgument w g)) b"
| "apply_op (Complete l c) b =
     setLayout (\<lambda>g. case apply_completion l c g of Inl e \<Rightarrow> g | Inr g' \<Rightarrow> g') b"
| "apply_op (SynthesizeRegionSuccess n ns) b = setLayout (handleSynthesizeRegion_success n ns) b"
| "apply_op (AnalyzeGenealogySuccess n es) b = setLayout (handleAnalyzeGenealogy_success n es) b"
| "apply_op (AddDialecticNode n ty l) b = setLayout (handleAddDialecticNode n ty l) b"
| "apply_op (AddCounterExampleNode l n) b = setLayout (handleAddCounterExampleNode l n) b"

definition run_ops :: "graph_op list \<Rightarrow> map_builder \<Rightarrow> map_builder" where
  "run_ops ops b = foldl (\<lambda>st op. apply_op op st) b ops"

section \<open>Sessions and projects (useSessionManager)\<close>

text \<open>
  The stored session is JSON. Members whose presence the loader tests are \<open>option\<close>
  fields. A feed's \<open>error\<close> is absent (\<open>None\<close>), \<^verbatim>\<open>null\<close> (\<open>Some None\<close>) or a
  message.
\<close>

record tracked_feed =
  feed_url :: string
  feed_nodeId :: int
  isLoading :: "bool option"
  feed_error :: "string option option"

record project_activity =
  activity_id :: string
  timestamp :: int
  activity_type :: string
  payload :: "(string \<times> payload_value) list"

record app_session_data =
  mapLayout :: layout
  mapTrayConceptIds :: "int list"
  trackedFeeds :: "tracked_feed list option"
  seenPublicationIds :: "string list"
  projectDiary :: "project_activity list option"

record project =
  project_id :: string
  project_name :: string
  data :: app_session_data

record custom_relationship_type =
  custom_name :: string
  custom_color :: string
  custom_description :: string

record session =
  version :: "int option"
  activeProjectId :: "string option"
  projects :: "project list"
  customRelationshipTypes :: "custom_relationship_type list option"
  disabledDefaultTypes :: "string list option"
  disabledCustomTypes :: "string list option"

definition MULTI_PROJECT_SESSION_VERSION :: int where
  "MULTI_PROJECT_SESSION_VERSION = 8"

text \<open>
  \<open>createNewProject\<close>: \<open>stamp\<close> is the decimal text of \<^verbatim>\<open>Date.now()\<close> and
  \<open>suffix\<close> the random base-36 suffix.
\<close>

definition createNewProject :: "string \<Rightarrow> string \<Rightarrow> string \<Rightarrow> project" where
  "createNewProject stamp suffix nm =
     \<lparr> project_id = ''proj_'' @ stamp @ ''_'' @ suffix,
       project_name = nm,
       data = \<lparr> mapLayout = \<lparr> nodes = [], links = [], logicalConstructs = Some [] \<rparr>,
                mapTrayConceptIds = [],
                trackedFeeds = Some [],
                seenPublicationIds = [],
                projectDiary = Some [] \<rparr> \<rparr>"

subsection \<open>Loading and migration\<close>

text \<open>
  The migration of one link. \<^verbatim>\<open>newLink.relationshipType && !newLink.relationshipTypes\<close>
  holds for a non-empty singular value on a link without the plural member (an empty
  string is falsy, an array is truthy even when empty).
\<close>

definition migrate_link :: "map_link \<Rightarrow> map_link" where
  "migrate_link link =
     (let newLink = link;
          newLink = (case relationshipType newLink of
                       Some ty \<Rightarrow>
                         (if ty \<noteq> [] \<and> relationshipTypes newLink = None
                          then newLink\<lparr> relationshipTypes := Some [ty], relationshipType := None \<rparr>
                          else newLink)
                     | None \<Rightarrow> newLink);
          newLink = (case justification newLink of
                       Some (JString str) \<Rightarrow> newLink\<lparr> justification := Some (JObject str []) \<rparr>
                     | _ \<Rightarrow> newLink)
      in newLink)"

definition backfill :: "'a list option \<Rightarrow> 'a list option" where
  "backfill v = (case v of None \<Rightarrow> Some [] | Some xs \<Rightarrow> Some xs)"

text \<open>
  The source maps the links of a project when its layout and the \<open>links\<close> member are
  present, which they always are in a \<open>layout\<close> record.
\<close>

definition migrate_project :: "project \<Rightarrow> project" where
  "migrate_project p =
     p\<lparr> data := (data p)
          \<lparr> projectDiary := backfill (projectDiary (data p)),
            mapLayout := (mapLayout (data p))
              \<lparr> logicalConstructs := backfill (logicalConstructs (mapLayout (data p))),
                links := map migrate_link (links (mapLayout (data p))) \<rparr> \<rparr> \<rparr>"

text \<open>
  \<^verbatim>\<open>!savedSession.version || savedSession.version < MULTI_PROJECT_SESSION_VERSION\<close>.
\<close>

definition needs_migration :: "session \<Rightarrow> bool" where
  "needs_migration s =
     (case version s of
        None \<Rightarrow> True
      | Some v \<Rightarrow> v = 0 \<or> v < MULTI_PROJECT_SESSION_VERSION)"

definition migrate :: "session \<Rightarrow> session" where
  "migrate s =
     s\<lparr> projects := map migrate_project (projects s),
        customRelationshipTypes := backfill (customRelationshipTypes s),
        disabledDefaultTypes := backfill (disabledDefaultTypes s),
        disabledCustomTypes := backfill (disabledCustomTypes s),
        version := Some MULTI_PROJECT_SESSION_VERSION \<rparr>"

definition sanitize_project :: "project \<Rightarrow> project" where
  "sanitize_project p =
     p\<lparr> data := (data p)
          \<lparr> trackedFeeds :=
              (case trackedFeeds (data p) of
                 None \<Rightarrow> None
               | Some feeds \<Rightarrow>
                   Some (map (\<lambda>feed. feed\<lparr> isLoading := Some False, feed_error := Some None \<rparr>)
                           feeds)),
            projectDiary := backfill (projectDiary (data p)),
            mapLayout := (mapLayout (data p))
              \<lparr> logicalConstructs := backfill (logicalConstructs (mapLayout (data p))) \<rparr> \<rparr> \<rparr>"

text \<open>
  \<^verbatim>\<open>savedSession.projects[0]?.id || null\<close>: no first project, or one whose id is the
  empty string, gives \<^verbatim>\<open>null\<close>.
\<close>

definition first_project_id :: "project list \<Rightarrow> string option" where
  "first_project_id ps =
     (case ps of
        [] \<Rightarrow> None
      | p # rest \<Rightarrow> if project_id p = [] then None else Some (project_id p))"

definition sanitize :: "session \<Rightarrow> session" where
  "sanitize s =
     (let s1 = s\<lparr> projects := map sanitize_project (projects s),
                  customRelationshipTypes := backfill (customRelationshipTypes s),
                  disabledDefaultTypes := backfill (disabledDefaultTypes s),
                  disabledCustomTypes := backfill (disabledCustomTypes s) \<rparr>
      in if \<not> (\<exists>p \<in> set (projects s1). Some (project_id p) = activeProjectId s1)
         then s1\<lparr> activeProjectId := first_project_id (projects s1) \<rparr>
         else s1)"

text \<open>
  The \<^verbatim>\<open>try\<close> block of \<open>loadInitialSession\<close> on a stored value that parses to a
  session: \<open>None\<close> when the block ends without returning (the version is not the
  current one, even after the migration step).
\<close>

definition load_saved :: "session \<Rightarrow> session option" where
  "load_saved savedSession =
     (let s1 = (if needs_migration savedSession then migrate savedSession else savedSession)
      in if version s1 = Some MULTI_PROJECT_SESSION_VERSION then Some (sanitize s1) else None)"

text \<open>
  What the storage key holds: nothing, a string that is not the JSON of a session (the
  exception is caught), or a session. In the last two lines of \<open>loadInitialSession\<close>
  the loader falls through to the import of the legacy single-project keys; the
  session built there is the argument \<open>legacyImport\<close>.
\<close>

datatype stored_session = Unparsable | Parsed session

definition loadInitialSession :: "stored_session option \<Rightarrow> session \<Rightarrow> session" where
  "loadInitialSession savedSessionString legacyImport =
     (case savedSessionString of
        Some (Parsed savedSession) \<Rightarrow>
          (case load_saved savedSession of
             Some loaded \<Rightarrow> loaded
           | None \<Rightarrow> legacyImport)
      | _ \<Rightarrow> legacyImport)"

subsection \<open>Project operations\<close>

definition activeProject :: "session \<Rightarrow> project option" where
  "activeProject s =
     (case activeProjectId s of
        None \<Rightarrow> None
      | Some a \<Rightarrow>
          if a = [] then None
          else (case find (\<lambda>p. project_id p = a) (projects s) of
                  Some p \<Rightarrow> Some p
                | None \<Rightarrow> (case projects s of [] \<Rightarrow> None | p # rest \<Rightarrow> Some p)))"

definition handleCreateProject :: "string \<Rightarrow> string \<Rightarrow> string \<Rightarrow> session \<Rightarrow> session" where
  "handleCreateProject stamp suffix nm prev =
     (let newProject = createNewProject stamp suffix nm
      in prev\<lparr> projects := projects prev @ [newProject],
               activeProjectId := Some (project_id newProject) \<rparr>)"

definition handleSwitchProject :: "string \<Rightarrow> session \<Rightarrow> session" where
  "handleSwitchProject projectId prev = prev\<lparr> activeProjectId := Some projectId \<rparr>"

definition handleDeleteProject :: "string \<Rightarrow> string \<Rightarrow> string \<Rightarrow> session \<Rightarrow> session" where
  "handleDeleteProject projectId stamp suffix prev =
     (let remainingProjects = filter (\<lambda>p. project_id p \<noteq> projectId) (projects prev)
      in case remainingProjects of
           [] \<Rightarrow>
             (let newProject = createNewProject stamp suffix ''Default Project''
              in prev\<lparr> projects := [newProject], activeProjectId := Some (project_id newProject) \<rparr>)
         | firstRemaining # others \<Rightarrow>
             (let newActiveProjectId =
                    (if activeProjectId prev = Some projectId
                     then Some (project_id firstRemaining)
                     else activeProjectId prev)
              in prev\<lparr> projects := remainingProjects, activeProjectId := newActiveProjectId \<rparr>))"

definition handleRenameProject :: "string \<Rightarrow> string \<Rightarrow> session \<Rightarrow> session" where
  "handleRenameProject projectId newName prev =
     prev\<lparr> projects := map (\<lambda>p. if project_id p = projectId then p\<lparr> project_name := newName \<rparr> else p)
                         (projects prev) \<rparr>"

section \<open>Predicates of the properties\<close>

text \<open>A link carries a non-empty list of relationship types.\<close>

definition typed_link :: "map_link \<Rightarrow> bool" where
  "typed_link l = (case relationshipTypes l of None \<Rightarrow> False | Some types \<Rightarrow> types \<noteq> [])"

text \<open>Every link of the layout carries a non-empty list of relationship types.\<close>

definition all_typed :: "layout \<Rightarrow> bool" where
  "all_typed g \<longleftrightarrow> (\<forall>l \<in> set (links g). typed_link l)"

text \<open>Some link joins the two ids, in either direction.\<close>

definition linked :: "layout \<Rightarrow> node_id \<Rightarrow> node_id \<Rightarrow> bool" where
  "linked g a c \<longleftrightarrow>
     (\<exists>l \<in> set (links g). (source l = a \<and> target l = c) \<or> (source l = c \<and> target l = a))"

definition same_pair :: "map_link \<Rightarrow> map_link \<Rightarrow> bool" where
  "same_pair l k \<longleftrightarrow>
     (source l = source k \<and> target l = target k) \<or> (source l = target k \<and> target l = source k)"

text \<open>No two links of the list join the same unordered pair of ids.\<close>

fun no_duplicate_links :: "map_link list \<Rightarrow> bool" where
  "no_duplicate_links [] = True"
| "no_duplicate_links (l # ls) = ((\<forall>k \<in> set ls. \<not> same_pair l k) \<and> no_duplicate_links ls)"

section \<open>Example states\<close>

definition example_node :: "int \<Rightarrow> string \<Rightarrow> map_node" where
  "example_node i nm = node_literal (NumId i) nm 0 0 Rect 150 40"

definition example_link :: "map_link" where
  "example_link =
     (link_literal (NumId 1) (NumId 2) Straight [''Supportive''])
       \<lparr> justificationState := Some Idle, implicationsState := Some Idle,
         formalizationState := Some Idle \<rparr>"

definition example_construct :: "logical_construct" where
  "example_construct =
     \<lparr> construct_id = ''lconstruct_1'', premiseNodeIds = [NumId 1], conclusionNodeId = NumId 2,
       operator = ''AND'', propositions = [(''P'', ''the will is free'')], critique = ''none'',
       construct_formalRepresentation = ''P'', suggestedSystem = ''PL'', rationale = ''none'' \<rparr>"

text \<open>Two nodes, one link between them and one construct over them.\<close>

definition example_layout :: "layout" where
  "example_layout =
     \<lparr> nodes = [example_node 1 ''Free Will'', example_node 2 ''Determinism''],
       links = [example_link],
       logicalConstructs = Some [example_construct] \<rparr>"

definition example_builder :: "map_builder" where
  "example_builder =
     \<lparr> layout_of = example_layout, diary = [], linkingNode = None, relationshipMenu = None,
       selectedNodeId = None \<rparr>"

text \<open>The same link while all three of its enrichments are in flight.\<close>

definition loading_link :: "map_link" where
  "loading_link =
     example_link\<lparr> justificationState := Some Loading, implicationsState := Some Loading,
                   formalizationState := Some Loading \<rparr>"

definition loading_layout :: "layout" where
  "loading_layout = example_layout\<lparr> links := [loading_link] \<rparr>"

text \<open>A current session with a single, empty project.\<close>

definition one_project_session :: session where
  "one_project_session =
     \<lparr> version = Some 8, activeProjectId = Some ''proj_1_a'',
       projects = [createNewProject ''1'' ''a'' ''Thesis''],
       customRelationshipTypes = Some [], disabledDefaultTypes = Some [],
       disabledCustomTypes = Some [] \<rparr>"

text \<open>A current session with two projects, the first one active.\<close>

definition two_project_session :: session where
  "two_project_session =
     \<lparr> version = Some 8, activeProjectId = Some ''proj_1_a'',
       projects = [createNewProject ''1'' ''a'' ''Thesis'', createNewProject ''2'' ''b'' ''Notes''],
       customRelationshipTypes = Some [], disabledDefaultTypes = Some [],
       disabledCustomTypes = Some [] \<rparr>"

text \<open>
  The example builder with a third, unlinked node, while a link is being drawn from
  node 1.
\<close>

definition three_node_builder :: "map_builder" where
  "three_node_builder =
     example_builder
       \<lparr> layout_of := example_layout\<lparr> nodes := nodes example_layout @ [example_node 3 ''Fate''] \<rparr>,
         linkingNode := Some (NumId 1) \<rparr>"

text \<open>The builder of a freshly created project: an empty layout and nothing logged.\<close>

definition fresh_builder :: "map_builder" where
  "fresh_builder =
     \<lparr> layout_of = mapLayout (data (createNewProject ''1'' ''a'' ''Default Project'')),
       diary = [], linkingNode = None, relationshipMenu = None, selectedNodeId = None \<rparr>"

text \<open>
  Stored sessions with one project that holds one link, at a given version. The link
  is either in the legacy shape or carries the singular member beside the plural one.
  \<open>default_session\<close> stands for the result of the legacy import.
\<close>

definition legacy_link :: "map_link" where
  "legacy_link =
     \<lparr> source = NumId 1, target = NumId 2, pathStyle = Straight, relationshipTypes = None,
       relationshipType = Some ''Causal'', justification = Some (JString ''because X''),
       justificationState = None, implications = None, implicationsState = None,
       formalRepresentation = None, formalizationState = None, link_isHistorical = None,
       isCounterExampleLink = None \<rparr>"

definition stored_project :: "map_link \<Rightarrow> project" where
  "stored_project l =
     \<lparr> project_id = ''proj_1_a'', project_name = ''Thesis'',
       data = \<lparr> mapLayout = \<lparr> nodes = [example_node 1 ''Free Will'', example_node 2 ''Determinism''],
                               links = [l], logicalConstructs = Some [] \<rparr>,
                mapTrayConceptIds = [],
                trackedFeeds = Some [\<lparr> feed_url = ''https://example.org/feed'', feed_nodeId = 1,
                                       isLoading = Some False, feed_error = Some None \<rparr>],
                seenPublicationIds = [],
                projectDiary = Some [] \<rparr> \<rparr>"

definition stored_session :: "int \<Rightarrow> map_link \<Rightarrow> session" where
  "stored_session v l =
     \<lparr> version = Some v, activeProjectId = Some ''proj_1_a'', projects = [stored_project l],
       customRelationshipTypes = Some [], disabledDefaultTypes = Some [],
       disabledCustomTypes = Some [] \<rparr>"

definition both_fields_link :: "map_link" where
  "both_fields_link = legacy_link\<lparr> relationshipTypes := Some [''Supportive''] \<rparr>"

definition default_session :: session where
  "default_session =
     \<lparr> version = Some 8, activeProjectId = Some ''proj_9_z'',
       projects = [createNewProject ''9'' ''z'' ''Default Project''],
       customRelationshipTypes = Some [], disabledDefaultTypes = Some [],
       disabledCustomTypes = Some [] \<rparr>"

section \<open>Auxiliary facts\<close>

lemma nodeMap_get_None_iff: "nodeMap_get ns i = None \<longleftrightarrow> i \<notin> nid ` set ns"
  by (auto simp: nodeMap_get_def find_None_iff)

lemma find_Some_set: "find P xs = Some x \<Longrightarrow> P x \<and> x \<in> set xs"
  by (induction xs) (auto split: if_splits)

lemma nodeMap_get_Some_nid: "nodeMap_get ns i = Some n \<Longrightarrow> nid n = i \<and> n \<in> set ns"
  using find_Some_set[of "\<lambda>n. nid n = i" "rev ns" n] by (simp add: nodeMap_get_def)

lemma map_no_match: "\<forall>l \<in> set ls. \<not> P l \<Longrightarrow> map (\<lambda>l. if P l then f l else l) ls = ls"
  by (induction ls) auto

lemma those_no_match:
  "\<forall>l \<in> set ls. \<not> P l \<Longrightarrow> those (map (\<lambda>l. if P l then f l else Some l) ls) = Some ls"
  by (induction ls) auto

lemma apply_completion_no_target:
  assumes "\<forall>l \<in> set (links g). \<not> same_key l (source link) (target link)"
  shows "apply_completion link c g = Inr g"
proof (cases c)
  case (JustificationSuccess jtext cs)
  then show ?thesis
    using assms by (simp add: generateJustification_success_def map_no_match)
next
  case JustificationError
  then show ?thesis
    using assms by (simp add: generateJustification_error_def map_no_match)
next
  case (ImplicationsSuccess questions)
  then show ?thesis
    using assms by (simp add: handleExploreImplications_success_def map_no_match)
next
  case ImplicationsError
  then show ?thesis
    using assms by (simp add: handleExploreImplications_error_def map_no_match)
next
  case (FormalizationSuccess choices)
  then show ?thesis
    using assms by (simp add: handleFormalizeArgument_success_def those_no_match)
next
  case FormalizationError
  then show ?thesis
    using assms by (simp add: handleFormalizeArgument_error_def map_no_match)
qed

lemma apply_completion_by_key:
  assumes "source link' = source link" and "target link' = target link"
  shows "apply_completion link' c g = apply_completion link c g"
  using assms
  by (cases c)
     (simp_all add: generateJustification_success_def generateJustification_error_def
        handleExploreImplications_success_def handleExploreImplications_error_def
        handleFormalizeArgument_success_def handleFormalizeArgument_error_def)

lemma deleteLink_no_key:
  "\<forall>l \<in> set (links (deleteLink link g)). \<not> same_key l (source link) (target link)"
  by (simp add: deleteLink_def)

lemma deleteNode_no_key:
  "i = source link \<or> i = target link \<Longrightarrow>
   \<forall>l \<in> set (links (deleteNode i g)). \<not> same_key l (source link) (target link)"
  by (auto simp: deleteNode_def same_key_def)

section \<open>Cascade completeness of node deletion\<close>

text \<open>
  Claim C2. For every node id \<open>n\<close> present in the graph, \<open>deleteNode n\<close> is a single
  transition to a layout in which \<open>n\<close> is no node's id, no remaining link has \<open>n\<close> as
  source or target, and no remaining logical construct has \<open>n\<close> among its premises or as
  its conclusion.
\<close>

theorem deleteNode_cascade:
  assumes "n \<in> nid ` set (nodes g)"
  shows "n \<notin> nid ` set (nodes (deleteNode n g))
       \<and> (\<forall>l \<in> set (links (deleteNode n g)). source l \<noteq> n \<and> target l \<noteq> n)
       \<and> (\<forall>c \<in> set (constructs_or_empty (deleteNode n g)).
             conclusionNodeId c \<noteq> n \<and> n \<notin> set (premiseNodeIds c))"
  by (auto simp: deleteNode_def constructs_or_empty_def)

text \<open>
  Deleting node 1 of the example layout removes the node, the link from it and the
  construct it is a premise of.
\<close>

theorem deleteNode_cascade_witness:
  "NumId 1 \<in> nid ` set (nodes example_layout)
   \<and> deleteNode (NumId 1) example_layout
       = \<lparr> nodes = [example_node 2 ''Determinism''], links = [], logicalConstructs = Some [] \<rparr>
   \<and> NumId 1 \<notin> nid ` set (nodes (deleteNode (NumId 1) example_layout))"
proof -
  have present: "NumId 1 \<in> nid ` set (nodes example_layout)"
    by (simp add: example_layout_def example_node_def node_literal_def)
  have result: "deleteNode (NumId 1) example_layout
       = \<lparr> nodes = [example_node 2 ''Determinism''], links = [], logicalConstructs = Some [] \<rparr>"
    by (simp add: deleteNode_def example_layout_def example_node_def node_literal_def
          example_link_def link_literal_def constructs_or_empty_def example_construct_def)
  from deleteNode_cascade[OF present] present result show ?thesis
    by blast
qed

section \<open>Creating a link needs both endpoints\<close>

text \<open>
  Claim C10. For every graph and every pair of ids \<open>(s, t)\<close> such that \<open>s\<close> or \<open>t\<close> is
  not the id of a node of the graph, \<open>createLink s t types\<close> leaves the layout (nodes,
  links, logical constructs) unchanged and logs no activity.
\<close>

theorem createLink_missing_endpoint:
  assumes "s \<notin> nid ` set (nodes (layout_of b)) \<or> t \<notin> nid ` set (nodes (layout_of b))"
  shows "layout_of (createLink s t types b) = layout_of b
       \<and> diary (createLink s t types b) = diary b"
  using assms
  by (auto simp: createLink_def nodeMap_get_None_iff[symmetric] split: option.splits)

theorem createLink_missing_endpoint_witness:
  "NumId 7 \<notin> nid ` set (nodes (layout_of example_builder))
   \<and> layout_of (createLink (NumId 1) (NumId 7) [''Causal''] example_builder) = example_layout
   \<and> diary (createLink (NumId 1) (NumId 7) [''Causal''] example_builder) = []"
proof -
  have h: "NumId 1 \<notin> nid ` set (nodes (layout_of example_builder))
      \<or> NumId 7 \<notin> nid ` set (nodes (layout_of example_builder))"
    by (simp add: example_builder_def example_layout_def example_node_def node_literal_def)
  have h7: "NumId 7 \<notin> nid ` set (nodes (layout_of example_builder))"
    by (simp add: example_builder_def example_layout_def example_node_def node_literal_def)
  from createLink_missing_endpoint[OF h, of "[''Causal'']"] h7 show ?thesis
    by (simp add: example_builder_def)
qed

section \<open>Completions that find no target\<close>

text \<open>
  Claim C8. For every enrichment completion (success or error) whose target link is no
  longer in the graph when the completion is applied, the merge leaves the graph
  unchanged and raises no error: no link or node is recreated. The merge looks the
  target up by its \<open>(source, target)\<close> key in the layout it is applied to, so this holds
  in particular after \<open>deleteLink\<close> of the target and after \<open>deleteNode\<close> of either
  endpoint; and the merge depends on the captured link through that key only.
\<close>

theorem stale_completion_is_noop:
  "((\<forall>l \<in> set (links g). \<not> same_key l (source link) (target link))
      \<longrightarrow> apply_completion link c g = Inr g)
   \<and> apply_completion link c (deleteLink link g) = Inr (deleteLink link g)
   \<and> apply_completion link c (deleteNode (source link) g) = Inr (deleteNode (source link) g)
   \<and> apply_completion link c (deleteNode (target link) g) = Inr (deleteNode (target link) g)
   \<and> (source link' = source link \<and> target link' = target link
        \<longrightarrow> apply_completion link' c g = apply_completion link c g)"
proof -
  have "apply_completion link' c g = apply_completion link c g"
    if "source link' = source link" and "target link' = target link"
    using that by (rule apply_completion_by_key)
  then show ?thesis
    using apply_completion_no_target[OF deleteLink_no_key]
          apply_completion_no_target[OF deleteNode_no_key]
          apply_completion_no_target
    by simp
qed

theorem stale_completion_is_noop_witness:
  "links (deleteLink example_link example_layout) = []
   \<and> apply_completion example_link (JustificationSuccess ''because'' [])
        (deleteLink example_link example_layout)
      = Inr (example_layout\<lparr> links := [] \<rparr>)
   \<and> apply_completion example_link ImplicationsError (deleteNode (NumId 2) example_layout)
      = Inr \<lparr> nodes = [example_node 1 ''Free Will''], links = [], logicalConstructs = Some [] \<rparr>"
proof -
  have d: "deleteLink example_link example_layout = example_layout\<lparr> links := [] \<rparr>"
    by (simp add: deleteLink_def example_layout_def same_key_def)
  have n: "deleteNode (NumId 2) example_layout
           = \<lparr> nodes = [example_node 1 ''Free Will''], links = [], logicalConstructs = Some [] \<rparr>"
    by (simp add: deleteNode_def example_layout_def example_link_def link_literal_def
          example_node_def node_literal_def constructs_or_empty_def example_construct_def)
  have t: "target example_link = NumId 2"
    by (simp add: example_link_def link_literal_def)
  from stale_completion_is_noop[of "deleteLink example_link example_layout" example_link
         "JustificationSuccess ''because'' []" example_link]
       stale_completion_is_noop[of example_layout example_link ImplicationsError example_link]
  show ?thesis
    by (simp add: d n t)
qed

section \<open>Deleting a project\<close>

lemma deleteProject_emptied:
  assumes "filter (\<lambda>p. project_id p \<noteq> pid) (projects s) = []"
  shows "handleDeleteProject pid stamp suffix s
         = s\<lparr> projects := [createNewProject stamp suffix ''Default Project''],
               activeProjectId :=
                 Some (project_id (createNewProject stamp suffix ''Default Project'')) \<rparr>"
  using assms by (simp add: handleDeleteProject_def Let_def)

lemma deleteProject_remaining:
  assumes "filter (\<lambda>p. project_id p \<noteq> pid) (projects s) = p # rest"
  shows "handleDeleteProject pid stamp suffix s
         = s\<lparr> projects := p # rest,
               activeProjectId := (if activeProjectId s = Some pid then Some (project_id p)
                                   else activeProjectId s) \<rparr>"
  using assms by (simp add: handleDeleteProject_def Let_def)

text \<open>
  Claim C5. For every session, \<open>handleDeleteProject\<close> removes the project with the given
  id. If that empties the project list, the resulting session holds exactly one newly
  created, empty project named "Default Project", and it is active. If projects remain
  and the removed one was active, the first remaining project becomes active. The
  session is never left without a project.
\<close>

theorem deleteProject_keeps_a_project:
  "(filter (\<lambda>p. project_id p \<noteq> pid) (projects s) = []
      \<longrightarrow> projects (handleDeleteProject pid stamp suffix s)
            = [createNewProject stamp suffix ''Default Project'']
        \<and> activeProjectId (handleDeleteProject pid stamp suffix s)
            = Some (project_id (createNewProject stamp suffix ''Default Project'')))
   \<and> (filter (\<lambda>p. project_id p \<noteq> pid) (projects s) \<noteq> []
      \<longrightarrow> projects (handleDeleteProject pid stamp suffix s)
            = filter (\<lambda>p. project_id p \<noteq> pid) (projects s)
        \<and> (\<forall>p \<in> set (projects (handleDeleteProject pid stamp suffix s)). project_id p \<noteq> pid))
   \<and> (\<forall>p rest. filter (\<lambda>p. project_id p \<noteq> pid) (projects s) = p # rest
        \<and> activeProjectId s = Some pid
      \<longrightarrow> activeProjectId (handleDeleteProject pid stamp suffix s) = Some (project_id p))
   \<and> (filter (\<lambda>p. project_id p \<noteq> pid) (projects s) \<noteq> [] \<and> activeProjectId s \<noteq> Some pid
      \<longrightarrow> activeProjectId (handleDeleteProject pid stamp suffix s) = activeProjectId s)
   \<and> projects (handleDeleteProject pid stamp suffix s) \<noteq> []
   \<and> project_name (createNewProject stamp suffix ''Default Project'') = ''Default Project''
   \<and> data (createNewProject stamp suffix ''Default Project'')
       = \<lparr> mapLayout = \<lparr> nodes = [], links = [], logicalConstructs = Some [] \<rparr>,
           mapTrayConceptIds = [], trackedFeeds = Some [], seenPublicationIds = [],
           projectDiary = Some [] \<rparr>"
proof (cases "filter (\<lambda>p. project_id p \<noteq> pid) (projects s)")
  case Nil
  show ?thesis
    by (simp add: deleteProject_emptied[OF Nil] Nil createNewProject_def)
next
  case (Cons p rest)
  have mem: "\<forall>q \<in> set (p # rest). project_id q \<noteq> pid"
  proof
    fix q assume "q \<in> set (p # rest)"
    then have "q \<in> set (filter (\<lambda>p. project_id p \<noteq> pid) (projects s))"
      using Cons by simp
    then show "project_id q \<noteq> pid" by simp
  qed
  show ?thesis
    using mem by (simp add: deleteProject_remaining[OF Cons] Cons createNewProject_def)
qed

text \<open>
  Deleting the only project leaves one fresh default project, active; deleting the
  active one of two projects activates the other; deleting the inactive one keeps the
  active project.
\<close>

theorem deleteProject_keeps_a_project_witness:
  "filter (\<lambda>p. project_id p \<noteq> ''proj_1_a'') (projects one_project_session) = []
   \<and> projects (handleDeleteProject ''proj_1_a'' ''2'' ''b'' one_project_session)
      = [createNewProject ''2'' ''b'' ''Default Project'']
   \<and> activeProjectId (handleDeleteProject ''proj_1_a'' ''2'' ''b'' one_project_session)
      = Some ''proj_2_b''
   \<and> filter (\<lambda>p. project_id p \<noteq> ''proj_1_a'') (projects two_project_session)
      = [createNewProject ''2'' ''b'' ''Notes'']
   \<and> activeProjectId two_project_session = Some ''proj_1_a''
   \<and> projects (handleDeleteProject ''proj_1_a'' ''3'' ''c'' two_project_session)
      = [createNewProject ''2'' ''b'' ''Notes'']
   \<and> activeProjectId (handleDeleteProject ''proj_1_a'' ''3'' ''c'' two_project_session)
      = Some ''proj_2_b''
   \<and> filter (\<lambda>p. project_id p \<noteq> ''proj_2_b'') (projects two_project_session)
      = [createNewProject ''1'' ''a'' ''Thesis'']
   \<and> activeProjectId two_project_session \<noteq> Some ''proj_2_b''
   \<and> projects (handleDeleteProject ''proj_2_b'' ''3'' ''c'' two_project_session)
      = [createNewProject ''1'' ''a'' ''Thesis'']
   \<and> activeProjectId (handleDeleteProject ''proj_2_b'' ''3'' ''c'' two_project_session)
      = Some ''proj_1_a''"
proof -
  have e: "filter (\<lambda>p. project_id p \<noteq> ''proj_1_a'') (projects one_project_session) = []"
    by (simp add: one_project_session_def createNewProject_def)
  have i: "project_id (createNewProject ''2'' ''b'' ''Default Project'') = ''proj_2_b''"
    by (simp add: createNewProject_def)
  have f1: "filter (\<lambda>p. project_id p \<noteq> ''proj_1_a'') (projects two_project_session)
            = [createNewProject ''2'' ''b'' ''Notes'']"
    by (simp add: two_project_session_def createNewProject_def)
  have f2: "filter (\<lambda>p. project_id p \<noteq> ''proj_2_b'') (projects two_project_session)
            = [createNewProject ''1'' ''a'' ''Thesis'']"
    by (simp add: two_project_session_def createNewProject_def)
  have a: "activeProjectId two_project_session = Some ''proj_1_a''"
    by (simp add: two_project_session_def)
  have j: "project_id (createNewProject ''2'' ''b'' ''Notes'') = ''proj_2_b''"
    by (simp add: createNewProject_def)
  from deleteProject_keeps_a_project[of "''proj_1_a''" one_project_session "''2''" "''b''"] e i
  have one: "projects (handleDeleteProject ''proj_1_a'' ''2'' ''b'' one_project_session)
          = [createNewProject ''2'' ''b'' ''Default Project'']
      \<and> activeProjectId (handleDeleteProject ''proj_1_a'' ''2'' ''b'' one_project_session)
          = Some ''proj_2_b''"
    by simp
  from deleteProject_keeps_a_project[of "''proj_1_a''" two_project_session "''3''" "''c''"] f1 a j
  have two: "projects (handleDeleteProject ''proj_1_a'' ''3'' ''c'' two_project_session)
          = [createNewProject ''2'' ''b'' ''Notes'']
      \<and> activeProjectId (handleDeleteProject ''proj_1_a'' ''3'' ''c'' two_project_session)
          = Some ''proj_2_b''"
    by simp
  from deleteProject_keeps_a_project[of "''proj_2_b''" two_project_session "''3''" "''c''"] f2 a
  have three: "projects (handleDeleteProject ''proj_2_b'' ''3'' ''c'' two_project_session)
          = [createNewProject ''1'' ''a'' ''Thesis'']
      \<and> activeProjectId (handleDeleteProject ''proj_2_b'' ''3'' ''c'' two_project_session)
          = Some ''proj_1_a''"
    by simp
  from one two three e f1 f2 a show ?thesis by simp
qed

section \<open>Switching the active project\<close>

text \<open>
  Claim C9 says that \<open>handleSwitchProject\<close> is a no-op when no project has the given
  id. The source sets the active id without looking at the project list: switching the
  one-project session to an id that no project has changes the session.
\<close>

theorem switchProject_unknown_id_counterexample:
  "map project_id (projects one_project_session) = [''proj_1_a'']
   \<and> activeProjectId one_project_session = Some ''proj_1_a''
   \<and> activeProjectId (handleSwitchProject ''ghost'' one_project_session) = Some ''ghost''
   \<and> handleSwitchProject ''ghost'' one_project_session \<noteq> one_project_session"
proof -
  have a: "activeProjectId one_project_session = Some ''proj_1_a''"
    by (simp add: one_project_session_def)
  have b: "activeProjectId (handleSwitchProject ''ghost'' one_project_session) = Some ''ghost''"
    by (simp add: handleSwitchProject_def)
  have "handleSwitchProject ''ghost'' one_project_session \<noteq> one_project_session"
  proof
    assume "handleSwitchProject ''ghost'' one_project_session = one_project_session"
    with a b show False by simp
  qed
  with a b show ?thesis
    by (simp add: one_project_session_def createNewProject_def)
qed

text \<open>
  Claim C9, amended. For every session and every id, \<open>handleSwitchProject\<close> sets
  \<open>activeProjectId\<close> to the id and changes nothing else, whether or not a project has
  that id. When no project has the (non-empty) id, the active project resolves to the
  first project of the list, or to none when the list is empty.
\<close>

theorem switchProject_sets_active_id:
  "activeProjectId (handleSwitchProject pid s) = Some pid
   \<and> projects (handleSwitchProject pid s) = projects s
   \<and> version (handleSwitchProject pid s) = version s
   \<and> customRelationshipTypes (handleSwitchProject pid s) = customRelationshipTypes s
   \<and> disabledDefaultTypes (handleSwitchProject pid s) = disabledDefaultTypes s
   \<and> disabledCustomTypes (handleSwitchProject pid s) = disabledCustomTypes s
   \<and> (pid \<notin> project_id ` set (projects s) \<and> pid \<noteq> []
        \<longrightarrow> activeProject (handleSwitchProject pid s)
            = (case projects s of [] \<Rightarrow> None | p # rest \<Rightarrow> Some p))"
proof -
  have "find (\<lambda>p. project_id p = pid) (projects s) = None"
    if "pid \<notin> project_id ` set (projects s)"
    using that by (auto simp: find_None_iff)
  then show ?thesis
    by (simp add: handleSwitchProject_def activeProject_def)
qed

theorem switchProject_sets_active_id_witness:
  "''ghost'' \<notin> project_id ` set (projects one_project_session) \<and> ''ghost'' \<noteq> []
   \<and> activeProjectId (handleSwitchProject ''ghost'' one_project_session) = Some ''ghost''
   \<and> activeProject (handleSwitchProject ''ghost'' one_project_session)
      = Some (createNewProject ''1'' ''a'' ''Thesis'')"
proof -
  have h: "''ghost'' \<notin> project_id ` set (projects one_project_session)"
    by (simp add: one_project_session_def createNewProject_def)
  have p: "projects one_project_session = [createNewProject ''1'' ''a'' ''Thesis'']"
    by (simp add: one_project_session_def)
  from switchProject_sets_active_id[of "''ghost''" one_project_session] h p show ?thesis
    by simp
qed

section \<open>Requests while an enrichment is loading\<close>

lemma exploreImplications_guard:
  "implicationsState link = Some Loading \<Longrightarrow> handleExploreImplications link g = (g, None)"
  by (simp add: handleExploreImplications_def split: option.splits)

lemma generateJustification_dispatches:
  assumes "nodeMap_get (nodes g) (source link) = Some sourceNode"
      and "nodeMap_get (nodes g) (target link) = Some targetNode"
      and "relationshipTypes link = Some types"
  shows "snd (generateJustification link g)
         = Some (LinkRequest Justification (name sourceNode) (name targetNode) types)"
  using assms by (simp add: generateJustification_def)

lemma formalizeArgument_dispatches:
  assumes "nodeMap_get (nodes g) (source link) = Some sourceNode"
      and "nodeMap_get (nodes g) (target link) = Some targetNode"
      and "relationshipTypes link = Some types"
  shows "snd (handleFormalizeArgument (LinkWorkbench link) g)
         = Some (LinkRequest Formalization (name sourceNode) (name targetNode) types)"
  using assms by (simp add: handleFormalizeArgument_def)

text \<open>
  Claim C4 asks that a second request for a field that is loading dispatches nothing.
  \<open>handleExploreImplications\<close> has that guard (\<open>exploreImplications_guard\<close>);
  \<open>generateJustification\<close> and \<open>handleFormalizeArgument\<close> have none. On the example
  link with all three fields loading, the layout stays as it is in each case, the
  implications handler dispatches nothing, and the other two dispatch a request.
\<close>

theorem loading_link_requests:
  "justificationState loading_link = Some Loading
   \<and> implicationsState loading_link = Some Loading
   \<and> formalizationState loading_link = Some Loading
   \<and> links loading_layout = [loading_link]
   \<and> handleExploreImplications loading_link loading_layout = (loading_layout, None)
   \<and> generateJustification loading_link loading_layout
      = (loading_layout,
         Some (LinkRequest Justification ''Free Will'' ''Determinism'' [''Supportive'']))
   \<and> handleFormalizeArgument (LinkWorkbench loading_link) loading_layout
      = (loading_layout,
         Some (LinkRequest Formalization ''Free Will'' ''Determinism'' [''Supportive'']))"
  by (simp add: loading_link_def loading_layout_def example_layout_def example_link_def
        link_literal_def example_node_def node_literal_def nodeMap_get_def same_key_def
        handleExploreImplications_def generateJustification_def handleFormalizeArgument_def)

section \<open>Duplicate links\<close>

lemma linked_sym: "linked g a c \<longleftrightarrow> linked g c a"
  by (auto simp: linked_def)

lemma find_connecting_None:
  "find (\<lambda>l. (source l = a \<and> target l = c) \<or> (source l = c \<and> target l = a)) (links g) = None
   \<longleftrightarrow> \<not> linked g a c"
  by (auto simp: find_None_iff linked_def)

lemma no_duplicate_links_append:
  "no_duplicate_links (ls @ [n]) \<longleftrightarrow> no_duplicate_links ls \<and> (\<forall>k \<in> set ls. \<not> same_pair k n)"
  by (induction ls) auto

lemma handleNodeClick_linked:
  assumes "linkingNode b = Some a" and "linked (layout_of b) a (nid n)"
  shows "handleNodeClick tr n b = b\<lparr> linkingNode := None \<rparr>"
proof (cases "find (\<lambda>l. (source l = a \<and> target l = nid n) \<or> (source l = nid n \<and> target l = a))
                (links (layout_of b))")
  case None
  with assms(2) show ?thesis by (simp add: find_connecting_None)
next
  case (Some existingLink)
  with assms(1) show ?thesis by (simp add: handleNodeClick_def)
qed

lemma handleNodeClick_opens_menu:
  assumes "linkingNode b = Some a" and "relationshipMenu b = None"
      and "relationshipMenu (handleNodeClick tr n b) = Some m"
  shows "menu_sourceId m = a \<and> menu_targetId m = nid n \<and> a \<noteq> nid n
       \<and> \<not> linked (layout_of b) a (nid n)
       \<and> layout_of (handleNodeClick tr n b) = layout_of b"
proof (cases "find (\<lambda>l. (source l = a \<and> target l = nid n) \<or> (source l = nid n \<and> target l = a))
                (links (layout_of b))")
  case None
  then have nc: "\<not> linked (layout_of b) a (nid n)"
    by (simp add: find_connecting_None)
  from assms None show ?thesis
    using nc
    by (cases "nodeMap_get (nodes (layout_of b)) a"; cases "a = nid n")
       (auto simp: handleNodeClick_def Let_def)
next
  case (Some existingLink)
  with assms show ?thesis
    by (cases "a = nid n") (simp_all add: handleNodeClick_def)
qed

lemma createLink_links:
  "links (layout_of (createLink s t types b)) = links (layout_of b)
   \<or> (\<exists>k. links (layout_of (createLink s t types b)) = links (layout_of b) @ [k]
          \<and> source k = s \<and> target k = t)"
  by (auto simp: createLink_def setLayout_def logActivity_def Let_def split: option.splits)

lemma createLink_keeps_unique:
  assumes "no_duplicate_links (links (layout_of b))" and "\<not> linked (layout_of b) s t"
  shows "no_duplicate_links (links (layout_of (createLink s t types b)))"
proof -
  from createLink_links[of s t types b]
  consider "links (layout_of (createLink s t types b)) = links (layout_of b)"
    | k where "links (layout_of (createLink s t types b)) = links (layout_of b) @ [k]"
              "source k = s" "target k = t"
    by blast
  then show ?thesis
  proof cases
    case 1
    with assms(1) show ?thesis by simp
  next
    case 2
    from assms(2) 2(2,3) have "\<forall>l \<in> set (links (layout_of b)). \<not> same_pair l k"
      by (auto simp: linked_def same_pair_def)
    with assms(1) 2(1) show ?thesis
      by (simp add: no_duplicate_links_append)
  qed
qed

text \<open>
  Claim C1 says that \<open>createLink\<close> is a no-op on a pair of nodes that a link already
  joins. The source's \<open>createLink\<close> does not look at the existing links: on the example
  layout, whose only link goes from node 1 to node 2, creating a link from node 2 to
  node 1 appends a second link between the two.
\<close>

theorem createLink_duplicate_counterexample:
  "links (layout_of example_builder) = [example_link]
   \<and> source example_link = NumId 1 \<and> target example_link = NumId 2
   \<and> links (layout_of (createLink (NumId 2) (NumId 1) [''Causal''] example_builder))
      = [example_link,
         (link_literal (NumId 2) (NumId 1) Straight [''Causal''])
           \<lparr> justificationState := Some Idle, implicationsState := Some Idle,
             formalizationState := Some Idle \<rparr>]
   \<and> links (layout_of (createLink (NumId 2) (NumId 1) [''Causal''] example_builder))
      \<noteq> links (layout_of example_builder)"
  by (simp add: createLink_def setLayout_def logActivity_def nodeMap_get_def
        example_builder_def example_layout_def example_node_def node_literal_def
        example_link_def link_literal_def)

text \<open>
  Claim C1, amended. The duplicate check is made where the linking gesture ends, in
  \<open>handleNodeClick\<close>, not in \<open>createLink\<close>. For every graph and every pair of ids
  \<open>(a, c)\<close> joined by a link in either direction, the click on \<open>c\<close> while a link is
  drawn from \<open>a\<close> only clears the linking node: the relationship menu from which
  \<open>createLink\<close> is called is not opened, and layout and activity log are unchanged.
  When the click does open the menu, it is for the pair \<open>(a, c)\<close>, which no link joins,
  and the \<open>createLink\<close> call for the menu's pair keeps a layout without duplicate
  links free of them.
\<close>

theorem linking_click_guards_duplicates:
  "(linkingNode b = Some a \<and> (linked (layout_of b) a (nid n) \<or> linked (layout_of b) (nid n) a)
      \<longrightarrow> handleNodeClick tr n b = b\<lparr> linkingNode := None \<rparr>)
   \<and> (linkingNode b = Some a \<and> relationshipMenu b = None
        \<and> relationshipMenu (handleNodeClick tr n b) = Some m
        \<and> no_duplicate_links (links (layout_of b))
      \<longrightarrow> menu_sourceId m = a \<and> menu_targetId m = nid n
          \<and> \<not> linked (layout_of b) a (nid n)
          \<and> no_duplicate_links
               (links (layout_of (createLink (menu_sourceId m) (menu_targetId m) types
                                    (handleNodeClick tr n b)))))"
proof (intro conjI impI)
  assume "linkingNode b = Some a
          \<and> (linked (layout_of b) a (nid n) \<or> linked (layout_of b) (nid n) a)"
  then show "handleNodeClick tr n b = b\<lparr> linkingNode := None \<rparr>"
    using handleNodeClick_linked linked_sym by blast
next
  assume h: "linkingNode b = Some a \<and> relationshipMenu b = None
        \<and> relationshipMenu (handleNodeClick tr n b) = Some m
        \<and> no_duplicate_links (links (layout_of b))"
  then have o: "menu_sourceId m = a \<and> menu_targetId m = nid n \<and> a \<noteq> nid n
       \<and> \<not> linked (layout_of b) a (nid n)
       \<and> layout_of (handleNodeClick tr n b) = layout_of b"
    using handleNodeClick_opens_menu by blast
  from o show "menu_sourceId m = a" by simp
  from o show "menu_targetId m = nid n" by simp
  from o show "\<not> linked (layout_of b) a (nid n)" by simp
  from h o show "no_duplicate_links
               (links (layout_of (createLink (menu_sourceId m) (menu_targetId m) types
                                    (handleNodeClick tr n b))))"
    using createLink_keeps_unique[of "handleNodeClick tr n b" a "nid n" types] by simp
qed

text \<open>
  On the example layout a click on node 1 while linking from node 2 opens no menu.
  With a third node, the click on node 3 while linking from node 1 opens the menu for
  \<open>(1, 3)\<close>, and creating that link keeps the links free of duplicates.
\<close>

theorem linking_click_guards_duplicates_witness:
  "linkingNode (example_builder\<lparr> linkingNode := Some (NumId 2) \<rparr>) = Some (NumId 2)
   \<and> linked (layout_of (example_builder\<lparr> linkingNode := Some (NumId 2) \<rparr>)) (NumId 1) (NumId 2)
   \<and> handleNodeClick id (example_node 1 ''Free Will'')
        (example_builder\<lparr> linkingNode := Some (NumId 2) \<rparr>) = example_builder
   \<and> linkingNode three_node_builder = Some (NumId 1)
   \<and> relationshipMenu three_node_builder = None
   \<and> relationshipMenu (handleNodeClick id (example_node 3 ''Fate'') three_node_builder)
      = Some \<lparr> menu_sourceId = NumId 1, menu_targetId = NumId 3, menu_x = 0, menu_y = 0 \<rparr>
   \<and> no_duplicate_links (links (layout_of three_node_builder))
   \<and> no_duplicate_links
        (links (layout_of (createLink (NumId 1) (NumId 3) [''Causal'']
                             (handleNodeClick id (example_node 3 ''Fate'') three_node_builder))))"
proof -
  let ?b = "example_builder\<lparr> linkingNode := Some (NumId 2) \<rparr>"
  let ?m = "\<lparr> menu_sourceId = NumId 1, menu_targetId = NumId 3, menu_x = 0, menu_y = 0 \<rparr>"
  have l: "linkingNode ?b = Some (NumId 2)" by simp
  have c: "linked (layout_of ?b) (NumId 1) (NumId 2)"
    by (simp add: linked_def example_builder_def example_layout_def example_link_def
          link_literal_def)
  have n: "nid (example_node 1 ''Free Will'') = NumId 1"
    by (simp add: example_node_def node_literal_def)
  have e: "?b\<lparr> linkingNode := None \<rparr> = example_builder"
    by (simp add: example_builder_def)
  have t1: "linkingNode three_node_builder = Some (NumId 1)"
    by (simp add: three_node_builder_def)
  have t2: "relationshipMenu three_node_builder = None"
    by (simp add: three_node_builder_def example_builder_def)
  have t3: "relationshipMenu (handleNodeClick id (example_node 3 ''Fate'') three_node_builder)
            = Some ?m"
    by (simp add: handleNodeClick_def three_node_builder_def example_builder_def
          example_layout_def example_node_def node_literal_def example_link_def
          link_literal_def nodeMap_get_def)
  have n3: "nid (example_node 3 ''Fate'') = NumId 3"
    by (simp add: example_node_def node_literal_def)
  have t4: "no_duplicate_links (links (layout_of three_node_builder))"
    by (simp add: three_node_builder_def example_layout_def)
  from linking_click_guards_duplicates[of ?b "NumId 2" "example_node 1 ''Free Will''" id]
       l c n e
  have first: "handleNodeClick id (example_node 1 ''Free Will'') ?b = example_builder"
    by simp
  from linking_click_guards_duplicates[of three_node_builder "NumId 1"
         "example_node 3 ''Fate''" id ?m "[''Causal'']"] t1 t2 t3 t4 n3
  have second: "no_duplicate_links
        (links (layout_of (createLink (NumId 1) (NumId 3) [''Causal'']
                             (handleNodeClick id (example_node 3 ''Fate'') three_node_builder))))"
    by simp
  from l c first t1 t2 t3 t4 second show ?thesis by simp
qed

section \<open>Relationship types are never empty\<close>

lemma typed_link_literal: "types \<noteq> [] \<Longrightarrow> typed_link (link_literal s t ps types)"
  by (simp add: typed_link_def link_literal_def)

lemma all_typed_map:
  assumes "all_typed g" and "\<And>l. typed_link l \<Longrightarrow> typed_link (f l)"
  shows "all_typed (g\<lparr> links := map f (links g) \<rparr>)"
  using assms by (simp add: all_typed_def)

lemma all_typed_append:
  assumes "all_typed g" and "\<forall>l \<in> set ls. typed_link l"
  shows "all_typed (g\<lparr> links := links g @ ls \<rparr>)"
  using assms by (auto simp: all_typed_def)

lemma all_typed_nodes: "all_typed (g\<lparr> nodes := ns \<rparr>) = all_typed g"
  by (simp add: all_typed_def)

lemma all_typed_constructs: "all_typed (g\<lparr> logicalConstructs := cs \<rparr>) = all_typed g"
  by (simp add: all_typed_def)

lemma those_map_Some:
  "those (map h ls) = Some ls' \<Longrightarrow> \<forall>l' \<in> set ls'. \<exists>l \<in> set ls. h l = Some l'"
proof (induction ls arbitrary: ls')
  case Nil
  then show ?case by simp
next
  case (Cons x xs)
  from Cons.prems obtain y ys where
    y: "h x = Some y" and ys: "those (map h xs) = Some ys" and ls': "ls' = y # ys"
    by (auto split: option.splits)
  from Cons.IH[OF ys] y ls' show ?case
    by auto
qed

lemma typed_deleteNode: "all_typed g \<Longrightarrow> all_typed (deleteNode i g)"
  by (simp add: all_typed_def deleteNode_def)

lemma typed_deleteLink: "all_typed g \<Longrightarrow> all_typed (deleteLink k g)"
  by (simp add: all_typed_def deleteLink_def)

lemma typed_updateLinkRelationshipTypes:
  "all_typed g \<Longrightarrow> all_typed (updateLinkRelationshipTypes k types g)"
  unfolding updateLinkRelationshipTypes_def
  by (rule all_typed_map) (auto simp: typed_link_def)

lemma typed_updateLinkPathStyle: "all_typed g \<Longrightarrow> all_typed (updateLinkPathStyle k ps g)"
  unfolding updateLinkPathStyle_def
  by (rule all_typed_map) (auto simp: typed_link_def)

lemma typed_handleConceptChangeSelect:
  "all_typed g \<Longrightarrow> all_typed (handleConceptChangeSelect i j nm g)"
  by (auto simp: all_typed_def handleConceptChangeSelect_def typed_link_def)

lemma typed_handlePinCitation: "all_typed g \<Longrightarrow> all_typed (handlePinCitation k c m now g)"
  by (simp add: all_typed_def handlePinCitation_def Let_def typed_link_literal)

lemma typed_generateJustification: "all_typed g \<Longrightarrow> all_typed (fst (generateJustification k g))"
  by (auto simp: all_typed_def generateJustification_def typed_link_def split: option.splits)

lemma typed_handleExploreImplications:
  "all_typed g \<Longrightarrow> all_typed (fst (handleExploreImplications k g))"
  by (auto simp: all_typed_def handleExploreImplications_def typed_link_def split: option.splits)

lemma typed_handleFormalizeArgument:
  "all_typed g \<Longrightarrow> all_typed (fst (handleFormalizeArgument w g))"
  by (auto simp: all_typed_def handleFormalizeArgument_def typed_link_def
           split: option.splits workbench_state.splits)

lemma typed_formalize_success:
  assumes "all_typed g" and "handleFormalizeArgument_success w choices g = Inr g'"
  shows "all_typed g'"
proof (cases w)
  case (LinkWorkbench link)
  let ?h = "\<lambda>l. if same_key l (source link) (target link)
                 then (case choices of
                         [] \<Rightarrow> None
                       | c # cs \<Rightarrow>
                           Some (l\<lparr> formalizationState := Some Success,
                                    formalRepresentation := Some (choice_formalRepresentation c) \<rparr>))
                 else Some l"
  from assms(2) LinkWorkbench obtain newLinks where
    t: "those (map ?h (links g)) = Some newLinks" and g': "g' = g\<lparr> links := newLinks \<rparr>"
    by (auto simp: handleFormalizeArgument_success_def split: option.splits)
  have "typed_link l'" if "l' \<in> set newLinks" for l'
  proof -
    from those_map_Some[OF t] that obtain l where l: "l \<in> set (links g)" "?h l = Some l'"
      by blast
    from l(1) assms(1) have "typed_link l" by (simp add: all_typed_def)
    with l(2) show ?thesis
      by (auto simp: typed_link_def split: if_splits list.splits)
  qed
  with g' show ?thesis by (simp add: all_typed_def)
next
  case (CombinedWorkbench ps concl)
  with assms show ?thesis by (simp add: handleFormalizeArgument_success_def)
qed

lemma typed_apply_completion:
  assumes "all_typed g"
  shows "all_typed (case apply_completion k c g of Inl e \<Rightarrow> g | Inr g' \<Rightarrow> g')"
proof (cases c)
  case (JustificationSuccess jtext cs)
  with assms show ?thesis
    by (auto simp: all_typed_def generateJustification_success_def typed_link_def)
next
  case JustificationError
  with assms show ?thesis
    by (auto simp: all_typed_def generateJustification_error_def typed_link_def)
next
  case (ImplicationsSuccess questions)
  with assms show ?thesis
    by (auto simp: all_typed_def handleExploreImplications_success_def typed_link_def)
next
  case ImplicationsError
  with assms show ?thesis
    by (auto simp: all_typed_def handleExploreImplications_error_def typed_link_def)
next
  case (FormalizationSuccess choices)
  with assms typed_formalize_success[OF assms, of "LinkWorkbench k" choices] show ?thesis
    by (simp split: sum.splits)
next
  case FormalizationError
  with assms show ?thesis
    by (auto simp: all_typed_def handleFormalizeArgument_error_def typed_link_def)
qed

lemma typed_handleSynthesizeRegion:
  "all_typed g \<Longrightarrow> all_typed (handleSynthesizeRegion_success n ns g)"
  by (auto simp: all_typed_def handleSynthesizeRegion_success_def typed_link_literal)

lemma typed_handleAnalyzeGenealogy:
  "all_typed g \<Longrightarrow> all_typed (handleAnalyzeGenealogy_success n es g)"
  by (auto simp: all_typed_def handleAnalyzeGenealogy_success_def typed_link_def link_literal_def)

lemma typed_handleAddDialecticNode: "all_typed g \<Longrightarrow> all_typed (handleAddDialecticNode n ty k g)"
  by (auto simp: all_typed_def handleAddDialecticNode_def Let_def typed_link_literal
           split: option.splits)

lemma typed_handleAddCounterExampleNode:
  "all_typed g \<Longrightarrow> all_typed (handleAddCounterExampleNode k n g)"
  by (auto simp: all_typed_def handleAddCounterExampleNode_def typed_link_def link_literal_def
           split: option.splits)

lemma typed_createLink:
  "all_typed (layout_of b) \<Longrightarrow> all_typed (layout_of (createLink s t types b))"
  by (auto simp: all_typed_def createLink_def setLayout_def logActivity_def Let_def typed_link_def
           split: option.splits)

lemma typed_handleNodeClick:
  "all_typed (layout_of b) \<Longrightarrow> all_typed (layout_of (handleNodeClick tr n b))"
  by (auto simp: handleNodeClick_def Let_def split: option.splits)

lemma typed_node_updaters:
  "all_typed (updateNodeShape i sh g) = all_typed g"
  "all_typed (handleTextColorChange i col g) = all_typed g"
  "all_typed (handleNodeNameChange i nm g) = all_typed g"
  "all_typed (handleSaveNote i content g) = all_typed g"
  "all_typed (handleCreateLogicalConstruct c g) = all_typed g"
  "all_typed (updateNodePosition i px py g) = all_typed g"
  "all_typed (handleBackgroundDoubleClick now px py g) = all_typed g"
  "all_typed (handleResize i w h g) = all_typed g"
  "all_typed (handleDrop d nm px py g) = all_typed g"
  by (simp_all add: all_typed_def updateNodeShape_def handleTextColorChange_def
        handleNodeNameChange_def handleSaveNote_def handleCreateLogicalConstruct_def
        updateNodePosition_def handleBackgroundDoubleClick_def handleResize_def handleDrop_def
      split: option.splits)

lemma typed_apply_op:
  assumes "all_typed (layout_of b)"
  shows "all_typed (layout_of (apply_op op b))"
proof (cases op)
  case (CreateLink s t types)
  with assms show ?thesis by (simp add: typed_createLink)
next
  case (NodeClick tr n)
  with assms show ?thesis by (simp add: typed_handleNodeClick)
next
  case (Complete l c)
  with assms show ?thesis by (simp add: setLayout_def typed_apply_completion)
qed (use assms in \<open>simp_all add: setLayout_def typed_node_updaters typed_deleteNode
       typed_deleteLink typed_updateLinkRelationshipTypes typed_updateLinkPathStyle
       typed_handleConceptChangeSelect typed_handlePinCitation typed_generateJustification
       typed_handleExploreImplications typed_handleFormalizeArgument
       typed_handleSynthesizeRegion typed_handleAnalyzeGenealogy typed_handleAddDialecticNode
       typed_handleAddCounterExampleNode\<close>)

lemma typed_run_ops: "all_typed (layout_of b) \<Longrightarrow> all_typed (layout_of (run_ops ops b))"
  unfolding run_ops_def
  by (induction ops arbitrary: b) (simp_all add: typed_apply_op)

lemma fresh_builder_typed: "all_typed (layout_of (run_ops ops fresh_builder))"
  by (rule typed_run_ops) (simp add: all_typed_def fresh_builder_def createNewProject_def)

lemma createLink_appends:
  assumes "s \<in> nid ` set (nodes (layout_of b))" and "t \<in> nid ` set (nodes (layout_of b))"
  shows "\<exists>k. links (layout_of (createLink s t types b)) = links (layout_of b) @ [k]
            \<and> source k = s \<and> target k = t
            \<and> relationshipTypes k = Some (if types = [] then [''Unclassified''] else types)"
proof -
  from assms obtain sn tn where
    "nodeMap_get (nodes (layout_of b)) s = Some sn" "nodeMap_get (nodes (layout_of b)) t = Some tn"
    using nodeMap_get_None_iff by (metis not_Some_eq)
  then show ?thesis
    by (simp add: createLink_def setLayout_def logActivity_def)
qed

text \<open>
  Claim C7. For every link of the graph, \<open>relationshipTypes\<close> is non-empty after every
  mutation operation: a graph whose links all carry a non-empty type list keeps that
  property under every sequence of operations, \<open>createLink\<close> with an empty type list
  stores \<open>[''Unclassified'']\<close>, and so does \<open>updateLinkRelationshipTypes\<close> with an
  empty list of new types. Hence every graph reached from the empty layout of a new
  project has only links with a non-empty type list.
\<close>

theorem relationshipTypes_never_empty:
  "(all_typed (layout_of b) \<longrightarrow> all_typed (layout_of (run_ops ops b)))
   \<and> (s \<in> nid ` set (nodes (layout_of b)) \<and> t \<in> nid ` set (nodes (layout_of b))
        \<longrightarrow> (\<exists>k. links (layout_of (createLink s t [] b)) = links (layout_of b) @ [k]
                  \<and> relationshipTypes k = Some [''Unclassified'']))
   \<and> (\<forall>l \<in> set (links (updateLinkRelationshipTypes k [] g)).
         same_key l (source k) (target k) \<longrightarrow> relationshipTypes l = Some [''Unclassified''])
   \<and> all_typed (layout_of (run_ops ops fresh_builder))"
proof (intro conjI impI)
  assume "all_typed (layout_of b)"
  then show "all_typed (layout_of (run_ops ops b))" by (rule typed_run_ops)
next
  show "all_typed (layout_of (run_ops ops fresh_builder))" by (rule fresh_builder_typed)
next
  assume "s \<in> nid ` set (nodes (layout_of b)) \<and> t \<in> nid ` set (nodes (layout_of b))"
  then show "\<exists>k. links (layout_of (createLink s t [] b)) = links (layout_of b) @ [k]
                  \<and> relationshipTypes k = Some [''Unclassified'']"
    using createLink_appends[of s b t "[]"] by auto
next
  show "\<forall>l \<in> set (links (updateLinkRelationshipTypes k [] g)).
         same_key l (source k) (target k) \<longrightarrow> relationshipTypes l = Some [''Unclassified'']"
    by (auto simp: updateLinkRelationshipTypes_def same_key_def)
qed

text \<open>
  On the example builder, emptying the types of the link and then creating a second
  link with no types leaves two links typed \<open>[''Unclassified'']\<close>.
\<close>

theorem relationshipTypes_never_empty_witness:
  "all_typed (layout_of example_builder)
   \<and> NumId 2 \<in> nid ` set (nodes (layout_of example_builder))
   \<and> NumId 1 \<in> nid ` set (nodes (layout_of example_builder))
   \<and> all_typed (layout_of (run_ops [UpdateLinkRelationshipTypes example_link [],
                                     CreateLink (NumId 2) (NumId 1) []] example_builder))
   \<and> map relationshipTypes
        (links (layout_of (run_ops [UpdateLinkRelationshipTypes example_link [],
                                    CreateLink (NumId 2) (NumId 1) []] example_builder)))
      = [Some [''Unclassified''], Some [''Unclassified'']]
   \<and> map relationshipTypes (links (updateLinkRelationshipTypes example_link [] example_layout))
      = [Some [''Unclassified'']]"
proof -
  have a: "all_typed (layout_of example_builder)"
    by (simp add: all_typed_def typed_link_def example_builder_def example_layout_def
          example_link_def link_literal_def)
  have n: "NumId 2 \<in> nid ` set (nodes (layout_of example_builder))
           \<and> NumId 1 \<in> nid ` set (nodes (layout_of example_builder))"
    by (simp add: example_builder_def example_layout_def example_node_def node_literal_def)
  have r: "map relationshipTypes
        (links (layout_of (run_ops [UpdateLinkRelationshipTypes example_link [],
                                    CreateLink (NumId 2) (NumId 1) []] example_builder)))
      = [Some [''Unclassified''], Some [''Unclassified'']]"
    by (simp add: run_ops_def setLayout_def logActivity_def updateLinkRelationshipTypes_def
          createLink_def nodeMap_get_def same_key_def example_builder_def example_layout_def
          example_link_def link_literal_def example_node_def node_literal_def)
  have u: "map relationshipTypes (links (updateLinkRelationshipTypes example_link [] example_layout))
      = [Some [''Unclassified'']]"
    by (simp add: updateLinkRelationshipTypes_def same_key_def example_layout_def)
  from relationshipTypes_never_empty[of example_builder
         "[UpdateLinkRelationshipTypes example_link [], CreateLink (NumId 2) (NumId 1) []]"]
       a n r u
  show ?thesis by simp
qed

section \<open>Loading a stored session\<close>

lemma backfill_Some [simp]: "backfill (Some xs) = Some xs"
  by (simp add: backfill_def)

lemma backfill_not_None [simp]: "backfill v \<noteq> None"
  by (simp add: backfill_def split: option.splits)

lemma links_sanitize_project:
  "links (mapLayout (data (sanitize_project p))) = links (mapLayout (data p))"
  by (simp add: sanitize_project_def)

lemma links_migrate_project:
  "links (mapLayout (data (migrate_project p))) = map migrate_link (links (mapLayout (data p)))"
  by (simp add: migrate_project_def)

lemma version_sanitize: "version (sanitize s) = version s"
  by (simp add: sanitize_def Let_def)

lemma projects_sanitize: "projects (sanitize s) = map sanitize_project (projects s)"
  by (simp add: sanitize_def Let_def)

lemma load_saved_migrates:
  assumes "needs_migration s"
  shows "load_saved s = Some (sanitize (migrate s))"
  using assms by (simp add: load_saved_def migrate_def)

lemma load_saved_current:
  assumes "version s = Some MULTI_PROJECT_SESSION_VERSION"
  shows "load_saved s = Some (sanitize s)"
  using assms by (simp add: load_saved_def needs_migration_def MULTI_PROJECT_SESSION_VERSION_def)

lemma migrate_link_converts:
  assumes "relationshipType l = Some ty" and "ty \<noteq> []" and "relationshipTypes l = None"
  shows "relationshipTypes (migrate_link l) = Some [ty] \<and> relationshipType (migrate_link l) = None"
  using assms
  by (simp add: migrate_link_def Let_def split: option.splits justification_value.splits)

lemma migrate_link_wraps:
  assumes "justification l = Some (JString str)"
  shows "justification (migrate_link l) = Some (JObject str [])"
  using assms
  by (simp add: migrate_link_def Let_def split: option.splits)

lemma migrate_link_keeps:
  assumes "relationshipTypes l \<noteq> None \<or> relationshipType l = Some []"
  shows "relationshipTypes (migrate_link l) = relationshipTypes l
       \<and> relationshipType (migrate_link l) = relationshipType l"
  using assms
  by (auto simp: migrate_link_def Let_def split: option.splits justification_value.splits)

text \<open>
  Claim C3 says that loading an older session converts every link that carries the
  singular \<open>relationshipType\<close>. The migration converts a link only when it has no
  \<open>relationshipTypes\<close> member: a version 3 session whose link carries both members is
  loaded with the link as stored, and only the version changes.
\<close>

theorem load_keeps_singular_beside_plural_counterexample:
  "version (stored_session 3 both_fields_link) = Some 3
   \<and> relationshipType both_fields_link = Some ''Causal''
   \<and> relationshipTypes both_fields_link = Some [''Supportive'']
   \<and> justification both_fields_link = Some (JString ''because X'')
   \<and> loadInitialSession (Some (Parsed (stored_session 3 both_fields_link))) default_session
      = stored_session 8 (both_fields_link\<lparr> justification := Some (JObject ''because X'' []) \<rparr>)"
  by (simp add: loadInitialSession_def load_saved_def needs_migration_def migrate_def
        migrate_project_def migrate_link_def sanitize_def sanitize_project_def
        MULTI_PROJECT_SESSION_VERSION_def stored_session_def stored_project_def
        both_fields_link_def legacy_link_def Let_def)

text \<open>
  Claim C3, amended. For every stored session whose version is absent or less than the
  current version constant, the load sets the version to the current constant and
  migrates every link of every project: a link with a non-empty singular
  \<open>relationshipType\<close> and no \<open>relationshipTypes\<close> member gets
  \<open>relationshipTypes = [value]\<close> and loses the singular member; a link that already has
  \<open>relationshipTypes\<close>, or whose singular value is the empty string, keeps both members
  as stored; every plain-string justification is wrapped as the object with that text
  and no citations.
\<close>

theorem load_migrates_old_session:
  "((case version s of None \<Rightarrow> True | Some v \<Rightarrow> v < MULTI_PROJECT_SESSION_VERSION)
      \<longrightarrow> version (loadInitialSession (Some (Parsed s)) legacy) = Some MULTI_PROJECT_SESSION_VERSION
        \<and> map (\<lambda>p. links (mapLayout (data p)))
              (projects (loadInitialSession (Some (Parsed s)) legacy))
          = map (\<lambda>p. map migrate_link (links (mapLayout (data p)))) (projects s))
   \<and> (relationshipType l = Some ty \<and> ty \<noteq> [] \<and> relationshipTypes l = None
        \<longrightarrow> relationshipTypes (migrate_link l) = Some [ty]
          \<and> relationshipType (migrate_link l) = None)
   \<and> (relationshipTypes l \<noteq> None \<or> relationshipType l = Some []
        \<longrightarrow> relationshipTypes (migrate_link l) = relationshipTypes l
          \<and> relationshipType (migrate_link l) = relationshipType l)
   \<and> (justification l = Some (JString str)
        \<longrightarrow> justification (migrate_link l) = Some (JObject str []))"
proof (intro conjI impI)
  assume old: "case version s of None \<Rightarrow> True | Some v \<Rightarrow> v < MULTI_PROJECT_SESSION_VERSION"
  then have "needs_migration s"
    by (simp add: needs_migration_def split: option.splits)
  then have l: "loadInitialSession (Some (Parsed s)) legacy = sanitize (migrate s)"
    by (simp add: loadInitialSession_def load_saved_migrates)
  show "version (loadInitialSession (Some (Parsed s)) legacy) = Some MULTI_PROJECT_SESSION_VERSION"
    by (simp add: l version_sanitize migrate_def)
  show "map (\<lambda>p. links (mapLayout (data p)))
              (projects (loadInitialSession (Some (Parsed s)) legacy))
          = map (\<lambda>p. map migrate_link (links (mapLayout (data p)))) (projects s)"
    by (simp add: l projects_sanitize migrate_def links_sanitize_project links_migrate_project
          comp_def)
next
  assume "relationshipType l = Some ty \<and> ty \<noteq> [] \<and> relationshipTypes l = None"
  then show "relationshipTypes (migrate_link l) = Some [ty]"
        and "relationshipType (migrate_link l) = None"
    using migrate_link_converts by blast+
next
  assume "relationshipTypes l \<noteq> None \<or> relationshipType l = Some []"
  then show "relationshipTypes (migrate_link l) = relationshipTypes l"
        and "relationshipType (migrate_link l) = relationshipType l"
    using migrate_link_keeps by blast+
next
  assume "justification l = Some (JString str)"
  then show "justification (migrate_link l) = Some (JObject str [])"
    by (rule migrate_link_wraps)
qed

text \<open>
  The version 3 session with the legacy link \<open>relationshipType = ''Causal''\<close> and the
  string justification \<open>''because X''\<close> is loaded at the current version, with the
  link converted and the justification wrapped.
\<close>

theorem load_migrates_old_session_witness:
  "(case version (stored_session 3 legacy_link) of
      None \<Rightarrow> True | Some v \<Rightarrow> v < MULTI_PROJECT_SESSION_VERSION)
   \<and> relationshipType legacy_link = Some ''Causal'' \<and> ''Causal'' \<noteq> []
   \<and> relationshipTypes legacy_link = None
   \<and> justification legacy_link = Some (JString ''because X'')
   \<and> relationshipTypes both_fields_link \<noteq> None
   \<and> version (loadInitialSession (Some (Parsed (stored_session 3 legacy_link))) default_session)
      = Some 8
   \<and> map (\<lambda>p. links (mapLayout (data p)))
        (projects (loadInitialSession (Some (Parsed (stored_session 3 legacy_link)))
                     default_session))
      = [[migrate_link legacy_link]]
   \<and> relationshipTypes (migrate_link legacy_link) = Some [''Causal'']
   \<and> relationshipType (migrate_link legacy_link) = None
   \<and> justification (migrate_link legacy_link) = Some (JObject ''because X'' [])
   \<and> relationshipType (migrate_link both_fields_link) = Some ''Causal''
   \<and> relationshipTypes (migrate_link both_fields_link) = Some [''Supportive'']"
proof -
  have v: "case version (stored_session 3 legacy_link) of
             None \<Rightarrow> True | Some v \<Rightarrow> v < MULTI_PROJECT_SESSION_VERSION"
    by (simp add: stored_session_def MULTI_PROJECT_SESSION_VERSION_def)
  have f: "relationshipType legacy_link = Some ''Causal''" "relationshipTypes legacy_link = None"
          "justification legacy_link = Some (JString ''because X'')"
    by (simp_all add: legacy_link_def)
  have b: "relationshipTypes both_fields_link = Some [''Supportive'']"
          "relationshipType both_fields_link = Some ''Causal''"
    by (simp_all add: both_fields_link_def legacy_link_def)
  have p: "map (\<lambda>p. map migrate_link (links (mapLayout (data p))))
             (projects (stored_session 3 legacy_link)) = [[migrate_link legacy_link]]"
    by (simp add: stored_session_def stored_project_def)
  from load_migrates_old_session[of "stored_session 3 legacy_link" default_session
         legacy_link "''Causal''" "''because X''"] v f p
  have one: "version (loadInitialSession (Some (Parsed (stored_session 3 legacy_link)))
                        default_session) = Some 8
      \<and> map (\<lambda>p. links (mapLayout (data p)))
          (projects (loadInitialSession (Some (Parsed (stored_session 3 legacy_link)))
                       default_session))
        = [[migrate_link legacy_link]]
      \<and> relationshipTypes (migrate_link legacy_link) = Some [''Causal'']
      \<and> relationshipType (migrate_link legacy_link) = None
      \<and> justification (migrate_link legacy_link) = Some (JObject ''because X'' [])"
    by (simp add: MULTI_PROJECT_SESSION_VERSION_def)
  from load_migrates_old_session[of "stored_session 3 both_fields_link" default_session
         both_fields_link] b
  have two: "relationshipType (migrate_link both_fields_link) = Some ''Causal''
      \<and> relationshipTypes (migrate_link both_fields_link) = Some [''Supportive'']"
    by simp
  from v f b one two show ?thesis by simp
qed

section \<open>Loading a current session\<close>

lemma sanitize_project_clean:
  assumes "projectDiary (data p) \<noteq> None"
      and "logicalConstructs (mapLayout (data p)) \<noteq> None"
      and "\<forall>feeds. trackedFeeds (data p) = Some feeds
             \<longrightarrow> (\<forall>f \<in> set feeds. isLoading f = Some False \<and> feed_error f = Some None)"
  shows "sanitize_project p = p"
proof -
  have feeds: "(case trackedFeeds (data p) of
                  None \<Rightarrow> None
                | Some feeds \<Rightarrow>
                    Some (map (\<lambda>feed. feed\<lparr> isLoading := Some False, feed_error := Some None \<rparr>)
                            feeds))
               = trackedFeeds (data p)"
  proof (cases "trackedFeeds (data p)")
    case None
    then show ?thesis by simp
  next
    case (Some feeds)
    with assms(3) have "\<forall>f \<in> set feeds. f\<lparr> isLoading := Some False, feed_error := Some None \<rparr> = f"
      by simp
    then have "map (\<lambda>feed. feed\<lparr> isLoading := Some False, feed_error := Some None \<rparr>) feeds = feeds"
      by (simp add: map_idI)
    with Some show ?thesis by simp
  qed
  from assms(1,2) obtain d cs where
    "projectDiary (data p) = Some d" "logicalConstructs (mapLayout (data p)) = Some cs"
    by auto
  with feeds show ?thesis
    by (simp add: sanitize_project_def)
qed

lemma sanitize_clean:
  assumes "\<forall>p \<in> set (projects s). sanitize_project p = p"
      and "customRelationshipTypes s \<noteq> None" and "disabledDefaultTypes s \<noteq> None"
      and "disabledCustomTypes s \<noteq> None"
      and "\<exists>p \<in> set (projects s). Some (project_id p) = activeProjectId s"
  shows "sanitize s = s"
proof -
  from assms(1) have m: "map sanitize_project (projects s) = projects s"
    by (simp add: map_idI)
  from assms(2-4) obtain a b c where
    "customRelationshipTypes s = Some a" "disabledDefaultTypes s = Some b"
    "disabledCustomTypes s = Some c"
    by auto
  with m assms(5) show ?thesis
    by (auto simp: sanitize_def Let_def)
qed

text \<open>
  Claim C6. Migration is idempotent: for every session whose version already equals
  the current version constant, with the diary and the logical constructs of every
  project present, the session-level type collections present, the transient flags of
  every feed cleared and an \<open>activeProjectId\<close> that is the id of one of its projects,
  the load returns a session equal to the stored one.
\<close>

theorem load_current_session_unchanged:
  assumes "version s = Some MULTI_PROJECT_SESSION_VERSION"
      and "\<forall>p \<in> set (projects s).
             projectDiary (data p) \<noteq> None \<and> logicalConstructs (mapLayout (data p)) \<noteq> None"
      and "customRelationshipTypes s \<noteq> None \<and> disabledDefaultTypes s \<noteq> None
           \<and> disabledCustomTypes s \<noteq> None"
      and "\<forall>p \<in> set (projects s). \<forall>feeds. trackedFeeds (data p) = Some feeds
             \<longrightarrow> (\<forall>f \<in> set feeds. isLoading f = Some False \<and> feed_error f = Some None)"
      and "\<exists>p \<in> set (projects s). Some (project_id p) = activeProjectId s"
  shows "loadInitialSession (Some (Parsed s)) legacy = s"
proof -
  from assms(2,4) have "\<forall>p \<in> set (projects s). sanitize_project p = p"
    by (simp add: sanitize_project_clean)
  with assms(3,5) have "sanitize s = s"
    by (simp add: sanitize_clean)
  with assms(1) show ?thesis
    by (simp add: loadInitialSession_def load_saved_current)
qed

text \<open>
  The current session with one project, one cleared feed and a legacy-shaped link is
  loaded as it is stored: at the current version no link is migrated.
\<close>

theorem load_current_session_unchanged_witness:
  "version (stored_session 8 legacy_link) = Some MULTI_PROJECT_SESSION_VERSION
   \<and> projects (stored_session 8 legacy_link) = [stored_project legacy_link]
   \<and> projectDiary (data (stored_project legacy_link)) = Some []
   \<and> logicalConstructs (mapLayout (data (stored_project legacy_link))) = Some []
   \<and> trackedFeeds (data (stored_project legacy_link))
      = Some [\<lparr> feed_url = ''https://example.org/feed'', feed_nodeId = 1,
                 isLoading = Some False, feed_error = Some None \<rparr>]
   \<and> customRelationshipTypes (stored_session 8 legacy_link) = Some []
   \<and> disabledDefaultTypes (stored_session 8 legacy_link) = Some []
   \<and> disabledCustomTypes (stored_session 8 legacy_link) = Some []
   \<and> activeProjectId (stored_session 8 legacy_link)
      = Some (project_id (stored_project legacy_link))
   \<and> loadInitialSession (Some (Parsed (stored_session 8 legacy_link))) default_session
      = stored_session 8 legacy_link"
proof -
  have h1: "version (stored_session 8 legacy_link) = Some MULTI_PROJECT_SESSION_VERSION"
    by (simp add: stored_session_def MULTI_PROJECT_SESSION_VERSION_def)
  have h2: "\<forall>p \<in> set (projects (stored_session 8 legacy_link)).
         projectDiary (data p) \<noteq> None \<and> logicalConstructs (mapLayout (data p)) \<noteq> None"
    by (simp add: stored_session_def stored_project_def)
  have h3: "customRelationshipTypes (stored_session 8 legacy_link) \<noteq> None
        \<and> disabledDefaultTypes (stored_session 8 legacy_link) \<noteq> None
        \<and> disabledCustomTypes (stored_session 8 legacy_link) \<noteq> None"
    by (simp add: stored_session_def)
  have h4: "\<forall>p \<in> set (projects (stored_session 8 legacy_link)). \<forall>feeds.
         trackedFeeds (data p) = Some feeds
         \<longrightarrow> (\<forall>f \<in> set feeds. isLoading f = Some False \<and> feed_error f = Some None)"
    by (auto simp: stored_session_def stored_project_def)
  have h5: "\<exists>p \<in> set (projects (stored_session 8 legacy_link)).
         Some (project_id p) = activeProjectId (stored_session 8 legacy_link)"
    by (simp add: stored_session_def stored_project_def)
  from load_current_session_unchanged[OF h1 h2 h3 h4 h5, of default_session] h1
  show ?thesis
    by (simp add: stored_session_def stored_project_def)
qed

text \<open>
  Loading what a load returned gives it back, without any assumption on the stored
  session.
\<close>

lemma backfill_idem: "backfill (backfill v) = backfill v"
  by (simp add: backfill_def split: option.splits)

lemma sanitize_project_idem: "sanitize_project (sanitize_project p) = sanitize_project p"
  by (cases "trackedFeeds (data p)") (simp_all add: sanitize_project_def backfill_idem comp_def)

lemma first_project_id_sanitize:
  "first_project_id (map sanitize_project ps) = first_project_id ps"
  by (cases ps) (simp_all add: first_project_id_def sanitize_project_def)

lemma project_id_sanitize: "project_id (sanitize_project p) = project_id p"
  by (simp add: sanitize_project_def)

lemma first_project_id_valid:
  "first_project_id ps = None \<or> (\<exists>p \<in> set ps. Some (project_id p) = first_project_id ps)"
  by (cases ps) (auto simp: first_project_id_def)

lemma sanitize_fixed:
  assumes "map sanitize_project (projects t) = projects t"
      and "backfill (customRelationshipTypes t) = customRelationshipTypes t"
      and "backfill (disabledDefaultTypes t) = disabledDefaultTypes t"
      and "backfill (disabledCustomTypes t) = disabledCustomTypes t"
      and "(\<exists>p \<in> set (projects t). Some (project_id p) = activeProjectId t)
           \<or> activeProjectId t = first_project_id (projects t)"
  shows "sanitize t = t"
  using assms by (auto simp: sanitize_def Let_def)

lemma sanitize_idem: "sanitize (sanitize s) = sanitize s"
proof (rule sanitize_fixed)
  show "map sanitize_project (projects (sanitize s)) = projects (sanitize s)"
    by (simp add: projects_sanitize sanitize_project_idem)
  show "backfill (customRelationshipTypes (sanitize s)) = customRelationshipTypes (sanitize s)"
    by (simp add: sanitize_def Let_def backfill_idem)
  show "backfill (disabledDefaultTypes (sanitize s)) = disabledDefaultTypes (sanitize s)"
    by (simp add: sanitize_def Let_def backfill_idem)
  show "backfill (disabledCustomTypes (sanitize s)) = disabledCustomTypes (sanitize s)"
    by (simp add: sanitize_def Let_def backfill_idem)
  show "(\<exists>p \<in> set (projects (sanitize s)). Some (project_id p) = activeProjectId (sanitize s))
        \<or> activeProjectId (sanitize s) = first_project_id (projects (sanitize s))"
    by (auto simp: sanitize_def Let_def first_project_id_sanitize project_id_sanitize)
qed

lemma load_saved_idem: "load_saved s = Some s' \<Longrightarrow> load_saved s' = Some s'"
proof -
  assume l: "load_saved s = Some s'"
  then obtain s1 where s1: "s' = sanitize s1" "version s1 = Some MULTI_PROJECT_SESSION_VERSION"
    by (auto simp: load_saved_def Let_def split: if_splits)
  then have "version s' = Some MULTI_PROJECT_SESSION_VERSION"
    by (simp add: version_sanitize)
  then have "load_saved s' = Some (sanitize s')"
    by (rule load_saved_current)
  with s1 show ?thesis by (simp add: sanitize_idem)
qed

end
